theory Spec2Isabelle
  imports Main "HOL-Library.Sublist" "HOL-Library.Char_ord" "HOL-Library.List_Lexorder"
    "HOL-Library.Multiset"
begin

section \<open>Stamp classification and numbering (index_core/stamp.py, parse_stamp)\<close>

text \<open>
  The fields of \<open>StampData\<close> that the last part of \<open>parse_stamp\<close> reads and writes.
  The two flags hold \<open>None\<close> or \<open>1\<close> in the source; they are tested by truthiness.
  \<open>file_suffix\<close> may be \<open>None\<close>; \<open>cpid\<close> may be \<open>None\<close> or empty.
\<close>

record stamp_data =
  ident :: string
  asset_longname :: "string option"
  cpid :: "string option"
  is_op_return :: bool
  file_suffix :: "string option"
  is_btc_stamp :: "int option"
  is_cursed :: "int option"
  stamp :: "int option"

text \<open>Python truthiness of an optional integer flag and of an optional string.\<close>

definition truthy_flag :: "int option \<Rightarrow> bool" where
  "truthy_flag f = (case f of None \<Rightarrow> False | Some n \<Rightarrow> n \<noteq> 0)"

definition truthy_str :: "string option \<Rightarrow> bool" where
  "truthy_str s = (case s of None \<Rightarrow> False | Some t \<Rightarrow> t \<noteq> [])"

definition startswith_A :: "string option \<Rightarrow> bool" where
  "startswith_A s = (case s of None \<Rightarrow> False | Some t \<Rightarrow> take 1 t = ''A'')"

text \<open>
  Lines 437 to 445 of \<open>parse_stamp\<close>: the if / elif / elif chain that decides between
  a BTC stamp and a cursed stamp. \<open>invalid_suffix\<close> is the configuration constant
  \<open>INVALID_BTC_STAMP_SUFFIX\<close>, which is not part of the sources and is a parameter.
\<close>

definition classify_stamp :: "string option set \<Rightarrow> stamp_data \<Rightarrow> stamp_data" where
  "classify_stamp invalid_suffix sd =
     (if ident sd \<noteq> ''UNKNOWN'' \<and> asset_longname sd = None \<and> truthy_str (cpid sd)
         \<and> startswith_A (cpid sd) \<and> \<not> is_op_return sd \<and> file_suffix sd \<notin> invalid_suffix
      then sd\<lparr>is_btc_stamp := Some 1\<rparr>
      else if asset_longname sd \<noteq> None
      then sd\<lparr>cpid := asset_longname sd, is_cursed := Some 1, is_btc_stamp := None\<rparr>
      else if truthy_str (cpid sd) \<and>
              (file_suffix sd \<in> invalid_suffix \<or> \<not> startswith_A (cpid sd) \<or> is_op_return sd)
      then sd\<lparr>is_btc_stamp := None, is_cursed := Some 1\<rparr>
      else sd)"

text \<open>
  Lines 447 to 452: which counter \<open>get_next_stamp_number\<close> is asked for. The result
  names the counter (\<open>stamp\<close> or \<open>cursed\<close>), or is \<open>None\<close> when no number is drawn.
\<close>

definition drawn_counter :: "stamp_data \<Rightarrow> string option" where
  "drawn_counter sd =
     (if truthy_flag (is_btc_stamp sd) then Some ''stamp''
      else if truthy_flag (is_cursed sd) then Some ''cursed''
      else None)"

text \<open>
  \<open>get_next_stamp_number db identifier\<close> belongs to \<open>index_core.database\<close>, which is not
  among the sources; it is the parameter \<open>next_number\<close>, already applied to the database.
\<close>

definition assign_stamp_number :: "(string \<Rightarrow> int) \<Rightarrow> stamp_data \<Rightarrow> stamp_data" where
  "assign_stamp_number next_number sd =
     sd\<lparr>stamp := map_option next_number (drawn_counter sd)\<rparr>"

definition classify_and_number ::
  "string option set \<Rightarrow> (string \<Rightarrow> int) \<Rightarrow> stamp_data \<Rightarrow> stamp_data" where
  "classify_and_number invalid_suffix next_number sd =
     assign_stamp_number next_number (classify_stamp invalid_suffix sd)"

section \<open>Python values shared by the models\<close>

text \<open>
  Exceptions of the source are values: a function that can raise returns a sum whose left
  side is the exception.
\<close>

datatype py_error =
  ValueError | InvalidOperation | TypeError | AttributeError | RuntimeException string

text \<open>\<open>str(n)\<close> for a Python int: the decimal digits, with a minus sign when negative.\<close>

definition digit_char :: "nat \<Rightarrow> char" where
  "digit_char d = ''0123456789'' ! d"

fun nat_digits :: "nat \<Rightarrow> string" where
  "nat_digits n = (if n < 10 then [digit_char n] else nat_digits (n div 10) @ [digit_char (n mod 10)])"

declare nat_digits.simps [simp del]

definition str_int :: "int \<Rightarrow> string" where
  "str_int i = (if i < 0 then CHR ''-'' # nat_digits (nat (- i)) else nat_digits (nat i))"

section \<open>Base64 decoding (index_core/stamp.py, decode_base64)\<close>

text \<open>
  The activation heights come from \<open>config\<close>, which is not among the sources: they are
  the parameters of the model.
\<close>

record activation =
  CP_P2WSH_FEAT_BLOCK_START :: int
  STOP_BASE64_REPAIR :: int

text \<open>
  The decoders are library calls (\<open>base64.b64decode\<close>, \<open>pybase64.b64decode\<close>, the
  \<open>base64 -d\<close> command line). Each is a parameter that returns the decoded bytes, or
  \<open>None\<close> where the call raises.
\<close>

record decoders =
  b64decode :: "string \<Rightarrow> string option"
  pybase64_b64decode :: "string \<Rightarrow> string option"
  cli_base64_d :: "string \<Rightarrow> string option"

definition rfc4648_alphabet :: "char set" where
  "rfc4648_alphabet = set (''ABCDEFGHIJKLMNOPQRSTUVWXYZabcdefghijklmnopqrstuvwxyz0123456789+/='')"

text \<open>
  Modelled from the spec: \<open>check_valid_base64_string\<close> of \<open>index_core.util\<close> is not among
  the sources. The spec says it validates charset and length: the length is a multiple of
  four and every character belongs to the RFC 4648 alphabet.
\<close>

definition check_valid_base64_string :: "string \<Rightarrow> bool" where
  "check_valid_base64_string s =
     (length s mod 4 = 0 \<and> list_all (\<lambda>c. c \<in> rfc4648_alphabet) s)"

text \<open>
  \<open>decode_base64_with_repair\<close>: pad to a multiple of four, decode, \<open>None\<close> on any
  exception.
\<close>

definition repair_padding :: "string \<Rightarrow> string" where
  "repair_padding s =
     (let missing_padding = length s mod 4
      in if missing_padding \<noteq> 0 then s @ replicate (4 - missing_padding) (CHR ''='') else s)"

definition decode_base64_with_repair :: "decoders \<Rightarrow> string \<Rightarrow> string option" where
  "decode_base64_with_repair ds s = b64decode ds (repair_padding s)"

text \<open>
  \<open>decode_base64\<close> returns the pair (image data, validity flag); the flag is \<open>True\<close>,
  \<open>False\<close> or \<open>None\<close> in the source, here a \<open>bool option\<close>.
\<close>

definition decode_base64 ::
  "activation \<Rightarrow> decoders \<Rightarrow> string \<Rightarrow> int \<Rightarrow> string option \<times> bool option" where
  "decode_base64 cfg ds base64_string block_index =
     (let is_valid_base64_string =
            (if block_index \<ge> CP_P2WSH_FEAT_BLOCK_START cfg
             then check_valid_base64_string base64_string else True)
      in if block_index \<ge> CP_P2WSH_FEAT_BLOCK_START cfg \<and> \<not> is_valid_base64_string
         then (None, None)
         else if block_index \<le> STOP_BASE64_REPAIR cfg
         then (let image_data = decode_base64_with_repair ds base64_string
               in (image_data, if image_data = None then None else Some is_valid_base64_string))
         else (case b64decode ds base64_string of
                 Some image_data \<Rightarrow> (Some image_data, Some is_valid_base64_string)
               | None \<Rightarrow>
                  (case pybase64_b64decode ds base64_string of
                     Some image_data \<Rightarrow> (Some image_data, Some is_valid_base64_string)
                   | None \<Rightarrow>
                      (case cli_base64_d ds base64_string of
                         Some image_data \<Rightarrow> (Some image_data, Some is_valid_base64_string)
                       | None \<Rightarrow> (None, None)))))"

section \<open>The base62 digest (stamp.py, create_base62_hash; index_core/stamp.py, get_cpid)\<close>












section \<open>Decimal arithmetic (Python's \<open>decimal\<close> module, as the SRC-20 code uses it)\<close>

text \<open>
  A finite \<open>Decimal\<close> is a signed coefficient and an exponent: \<open>Dec c e\<close> stands for
  \<open>c * 10 ^ e\<close>. The sign of a zero is not kept: no result of the code depends on it.
  The source never changes the decimal context, so arithmetic runs in the default
  context: 28 significant digits, rounding half to even. The exponent limits of the
  context (\<open>Emax = 999999\<close>) are not modelled.
\<close>

datatype decimal = Dec (coeff: int) (expo: int)

definition getcontext_prec :: nat where
  "getcontext_prec = 28"

definition ndigits :: "nat \<Rightarrow> nat" where
  "ndigits n = length (nat_digits n)"

text \<open>The quotient of \<open>n\<close> by \<open>10 ^ d\<close>, rounded half to even.\<close>

definition round_half_even :: "nat \<Rightarrow> nat \<Rightarrow> nat" where
  "round_half_even n d =
     (let q = n div 10 ^ d; r = n mod 10 ^ d
      in if 2 * r > 10 ^ d \<or> (2 * r = 10 ^ d \<and> odd q) then q + 1 else q)"

text \<open>
  \<open>Decimal._fix\<close>: a coefficient longer than the precision is rounded to the precision;
  when the rounding carries into one more digit, the last digit (a zero) is dropped.
\<close>

definition dec_fix :: "decimal \<Rightarrow> decimal" where
  "dec_fix x =
     (let n = nat \<bar>coeff x\<bar>; k = ndigits n
      in if k \<le> getcontext_prec then x
         else (let d = k - getcontext_prec;
                   q = round_half_even n d
               in if ndigits q > getcontext_prec
                  then Dec (sgn (coeff x) * int (q div 10)) (expo x + int d + 1)
                  else Dec (sgn (coeff x) * int q) (expo x + int d)))"

text \<open>Both coefficients at the smaller of the two exponents.\<close>

definition aligned :: "decimal \<Rightarrow> decimal \<Rightarrow> int \<times> int" where
  "aligned x y =
     (let e = min (expo x) (expo y)
      in (coeff x * 10 ^ nat (expo x - e), coeff y * 10 ^ nat (expo y - e)))"

text \<open>Comparisons are exact, by value.\<close>

definition dec_less :: "decimal \<Rightarrow> decimal \<Rightarrow> bool" where
  "dec_less x y = (fst (aligned x y) < snd (aligned x y))"

definition dec_le :: "decimal \<Rightarrow> decimal \<Rightarrow> bool" where
  "dec_le x y = (fst (aligned x y) \<le> snd (aligned x y))"

definition dec_eq :: "decimal \<Rightarrow> decimal \<Rightarrow> bool" where
  "dec_eq x y = (fst (aligned x y) = snd (aligned x y))"

text \<open>\<open>x + y\<close>, \<open>-x\<close> and \<open>x - y\<close>: the exact result at the smaller exponent, then \<open>_fix\<close>.\<close>

definition dec_add :: "decimal \<Rightarrow> decimal \<Rightarrow> decimal" where
  "dec_add x y = dec_fix (Dec (fst (aligned x y) + snd (aligned x y)) (min (expo x) (expo y)))"

definition dec_neg :: "decimal \<Rightarrow> decimal" where
  "dec_neg x = Dec (- coeff x) (expo x)"

definition dec_sub :: "decimal \<Rightarrow> decimal \<Rightarrow> decimal" where
  "dec_sub x y = dec_add x (dec_neg y)"

text \<open>The builtin \<open>min(a, b)\<close>: the first argument unless the second is smaller.\<close>

definition py_min :: "decimal \<Rightarrow> decimal \<Rightarrow> decimal" where
  "py_min a b = (if dec_less b a then b else a)"

text \<open>Truthiness: a \<open>Decimal\<close> is falsy exactly when it is zero.\<close>

definition dec_truthy :: "decimal \<Rightarrow> bool" where
  "dec_truthy x = (coeff x \<noteq> 0)"

definition D0 :: decimal where
  "D0 = Dec 0 0"

definition D_int :: "int \<Rightarrow> decimal" where
  "D_int i = Dec i 0"

text \<open>
  \<open>Decimal.normalize\<close>: \<open>_fix\<close>, then a zero becomes \<open>0\<close> with exponent zero and any
  other value loses the trailing zeros of its coefficient.
\<close>

function strip_zeros :: "int \<Rightarrow> int \<Rightarrow> decimal" where
  "strip_zeros c e = (if c \<noteq> 0 \<and> c mod 10 = 0 then strip_zeros (c div 10) (e + 1) else Dec c e)"
  by pat_completeness auto
termination
  by (relation "measure (\<lambda>(c, e). nat \<bar>c\<bar>)") auto

declare strip_zeros.simps [simp del]

definition dec_normalize :: "decimal \<Rightarrow> decimal" where
  "dec_normalize x = (let y = dec_fix x in if coeff y = 0 then Dec 0 0 else strip_zeros (coeff y) (expo y))"

section \<open>The SRC-20 processor (index_core/src20.py, Src20Processor)\<close>

text \<open>
  The status codes of \<open>STATUS_MESSAGES\<close>. The model keeps the code that
  \<open>set_status_and_log\<close> writes in front of the message, not the message text.
\<close>

datatype status_code = DE | ND | OM | NA | OMA | ODL | BB | UO | ID

fun is_invalid :: "status_code \<Rightarrow> bool" where
  "is_invalid OMA = False"
| "is_invalid ODL = False"
| "is_invalid _ = True"

text \<open>
  The SRC-20 dictionary after \<open>Src20Validator.process_values\<close>: \<open>tick\<close> is lowercased,
  \<open>op\<close> is uppercased, \<open>max\<close>, \<open>lim\<close> and \<open>amt\<close> are finite \<open>Decimal\<close>s or \<open>None\<close>.
  A key that may be missing from the dictionary is an option. The keys \<open>max\<close> and \<open>lim\<close>
  are the fields \<open>src_max\<close> and \<open>src_lim\<close>.
\<close>

record src20 =
  tick :: string
  tick_hash :: string
  op :: string
  src_max :: "decimal option"
  src_lim :: "decimal option"
  amt :: "decimal option"
  dec :: "int option"
  status :: "status_code option"
  valid :: "int option"
  creator :: string
  destination :: string
  total_minted :: "decimal option"
  total_balance_creator :: "decimal option"
  total_balance_destination :: "decimal option"

text \<open>A row of the balances table, as \<open>get_total_user_balance_from_balances_db\<close> selects it.\<close>

record balance_row =
  row_tick :: string
  row_tick_hash :: string
  row_address :: string
  row_amt :: decimal
  row_locked_amt :: decimal

text \<open>
  What the processor reads from the database. \<open>get_total_src20_minted_from_db\<close> and the
  store behind \<open>get_src20_deploy\<close> belong to \<open>index_core.database\<close>, which is not among
  the sources: they are parameters. \<open>deploy_table\<close> gives \<open>(lim, max, dec)\<close> of the stored
  DEPLOY of a tick.
\<close>

record database =
  deploy_table :: "string \<Rightarrow> (decimal \<times> decimal \<times> int option) option"
  get_total_src20_minted_from_db :: "string \<Rightarrow> decimal"
  balances_table :: "balance_row list"

text \<open>
  The attributes of a \<open>Src20Processor\<close>, with the module-level \<open>TOTAL_MINTED_CACHE\<close> that
  a valid MINT adds to.
\<close>

record processor =
  src20_dict :: src20
  is_valid :: bool
  self_dec :: "int option"
  deploy_lim :: decimal
  deploy_max :: decimal
  TOTAL_MINTED_CACHE :: "string \<Rightarrow> decimal"

text \<open>
  \<open>str.upper\<close>, on the ASCII letters; the comparisons of the source are with ASCII
  words, which no other Latin-1 character uppercases into.
\<close>

definition py_upper :: "string \<Rightarrow> string" where
  "py_upper s =
     map (\<lambda>c. case map_of (zip ''abcdefghijklmnopqrstuvwxyz'' ''ABCDEFGHIJKLMNOPQRSTUVWXYZ'') c of
                Some u \<Rightarrow> u | None \<Rightarrow> c) s"

definition set_status_and_log :: "status_code \<Rightarrow> processor \<Rightarrow> processor" where
  "set_status_and_log status_code p =
     (let p' = p\<lparr>src20_dict := (src20_dict p)\<lparr>status := Some status_code\<rparr>\<rparr>
      in if is_invalid status_code then p'\<lparr>is_valid := False\<rparr> else p')"

text \<open>
  \<open>normalize_and_validate_amt\<close>: \<open>ValueError\<close> when the normalized amount has more
  decimal places than \<open>dec\<close>; otherwise the amount, with the dictionary updated.
\<close>

definition normalize_and_validate_amt :: "processor \<Rightarrow> py_error + (decimal \<times> processor)" where
  "normalize_and_validate_amt p =
     (case amt (src20_dict p) of
        None \<Rightarrow> Inl TypeError
      | Some a \<Rightarrow>
         (let amt' = dec_normalize a;
              dec' = (case self_dec p of Some n \<Rightarrow> n | None \<Rightarrow> 18);
              decimal_length = - expo amt'
          in if decimal_length > dec' then Inl ValueError
             else Inr (amt', p\<lparr>self_dec := Some dec',
                                src20_dict := (src20_dict p)\<lparr>amt := Some amt', dec := Some dec'\<rparr>\<rparr>)))"

definition mark_valid :: "processor \<Rightarrow> processor" where
  "mark_valid p = p\<lparr>src20_dict := (src20_dict p)\<lparr>valid := Some 1\<rparr>\<rparr>"

text \<open>
  \<open>update_valid_src20_list\<close>. The arguments default to \<open>None\<close> in the source;
  \<open>D(None)\<close> raises \<open>TypeError\<close>.
\<close>

definition update_valid_src20_list ::
  "decimal option \<Rightarrow> decimal option \<Rightarrow> string \<Rightarrow> decimal option \<Rightarrow> processor
   \<Rightarrow> py_error + processor" where
  "update_valid_src20_list running_user_balance_creator running_user_balance_destination
      operation total_minted_arg p =
     (if operation = ''TRANSFER'' then
        (case normalize_and_validate_amt p of
           Inl ValueError \<Rightarrow> Inr (set_status_and_log ID p)
         | Inl e \<Rightarrow> Inl e
         | Inr (amt', p') \<Rightarrow>
            (case (running_user_balance_creator, running_user_balance_destination) of
               (Some c, Some d) \<Rightarrow>
                 Inr (mark_valid (p'\<lparr>src20_dict := (src20_dict p')
                        \<lparr>total_balance_creator := Some (dec_sub c amt'),
                         total_balance_destination := Some (dec_add d amt')\<rparr>\<rparr>))
             | _ \<Rightarrow> Inl TypeError))
      else if operation = ''MINT'' \<and> total_minted_arg \<noteq> None then
        (case normalize_and_validate_amt p of
           Inl ValueError \<Rightarrow> Inr (set_status_and_log ID p)
         | Inl e \<Rightarrow> Inl e
         | Inr (amt', p') \<Rightarrow>
            (case (running_user_balance_creator, total_minted_arg) of
               (Some c, Some t) \<Rightarrow>
                 Inr (mark_valid (p'\<lparr>
                        TOTAL_MINTED_CACHE := (TOTAL_MINTED_CACHE p')
                          (tick (src20_dict p') := dec_add (TOTAL_MINTED_CACHE p' (tick (src20_dict p'))) amt'),
                        src20_dict := (src20_dict p')
                          \<lparr>total_minted := Some (dec_add t amt'),
                           total_balance_destination := Some (dec_add c amt')\<rparr>\<rparr>))
             | _ \<Rightarrow> Inl TypeError))
      else if operation = ''DEPLOY'' then
        Inr (mark_valid (if dec (src20_dict p) = None
                         then p\<lparr>src20_dict := (src20_dict p)\<lparr>dec := Some 18\<rparr>\<rparr> else p))
      else Inl (RuntimeException ''Invalid Operation on SRC20 Table Insert''))"

subsection \<open>Running totals and running balances\<close>

text \<open>
  \<open>get_running_mint_total\<close>: the \<open>total_minted\<close> of the latest MINT of the tick in the
  block (the list is searched in reverse), and the database total when there is none or
  when it is zero.
\<close>

definition get_running_mint_total :: "database \<Rightarrow> src20 list \<Rightarrow> string \<Rightarrow> decimal" where
  "get_running_mint_total db src20_processed_in_block t =
     (let total =
        (case find (\<lambda>item. tick item = t \<and> op item = ''MINT'' \<and> total_minted item \<noteq> None)
                (rev src20_processed_in_block) of
           Some item \<Rightarrow> case_option D0 id (total_minted item)
         | None \<Rightarrow> D0)
      in if dec_eq total D0 then get_total_src20_minted_from_db db t else total)"

text \<open>The named tuple \<open>BalanceCurrent\<close>.\<close>

record balance_current =
  bc_tick :: string
  bc_address :: string
  total_balance :: decimal
  locked_balance :: "decimal option"

text \<open>
  The balance that a processed record of the block holds for an address: the creator's
  when the address is its creator and the record has \<open>total_balance_creator\<close>, else the
  destination's when the address is its destination and the record has
  \<open>total_balance_destination\<close>.
\<close>

definition prior_balance :: "src20 \<Rightarrow> string \<Rightarrow> string \<Rightarrow> string \<Rightarrow> decimal option" where
  "prior_balance prior_tx t th address =
     (if creator prior_tx = address \<and> tick prior_tx = t \<and> tick_hash prior_tx = th
         \<and> total_balance_creator prior_tx \<noteq> None
      then total_balance_creator prior_tx
      else if destination prior_tx = address \<and> tick prior_tx = t \<and> tick_hash prior_tx = th
         \<and> total_balance_destination prior_tx \<noteq> None
      then total_balance_destination prior_tx
      else None)"

text \<open>
  The inner loop \<open>for address in addresses\<close> of \<open>get_running_user_balances\<close>. It removes
  the address it has found from the list it is iterating over: the iteration goes on at
  the next index of the shortened list, so the address that followed the removed one is
  not looked at for this record. \<open>i\<close> is the index of the iteration.
\<close>

function scan_addresses ::
  "src20 \<Rightarrow> string \<Rightarrow> string \<Rightarrow> nat \<Rightarrow> string list \<Rightarrow> balance_current list
   \<Rightarrow> string list \<times> balance_current list" where
  "scan_addresses prior_tx t th i addresses balances =
     (if i < length addresses then
        (let address = addresses ! i
         in case prior_balance prior_tx t th address of
              Some b \<Rightarrow>
                scan_addresses prior_tx t th (i + 1) (remove1 address addresses)
                  (balances @ [\<lparr>bc_tick = t, bc_address = address, total_balance = b,
                                 locked_balance = None\<rparr>])
            | None \<Rightarrow> scan_addresses prior_tx t th (i + 1) addresses balances)
      else (addresses, balances))"
  by pat_completeness auto
termination
  by (relation "measure (\<lambda>(prior_tx, t, th, i, addresses, balances). length addresses - i)")
     (auto simp: length_remove1)

declare scan_addresses.simps [simp del]

text \<open>The outer loop \<open>for prior_tx in reversed(src20_processed_in_block)\<close>.\<close>

fun scan_block ::
  "string \<Rightarrow> string \<Rightarrow> src20 list \<Rightarrow> string list \<Rightarrow> balance_current list
   \<Rightarrow> string list \<times> balance_current list" where
  "scan_block t th [] addresses balances = (addresses, balances)"
| "scan_block t th (prior_tx # rest) addresses balances =
     (if valid prior_tx = Some 1
      then (case scan_addresses prior_tx t th 0 addresses balances of
              (addresses', balances') \<Rightarrow> scan_block t th rest addresses' balances')
      else scan_block t th rest addresses balances)"

text \<open>
  \<open>get_total_user_balance_from_balances_db\<close>: the selected rows, once for every address
  asked for (the loop over the addresses appends every row each time).
\<close>

definition get_total_user_balance_from_balances_db ::
  "database \<Rightarrow> string \<Rightarrow> string \<Rightarrow> string list \<Rightarrow> balance_row list" where
  "get_total_user_balance_from_balances_db db t th addresses =
     concat (map (\<lambda>address.
        filter (\<lambda>r. row_tick r = t \<and> row_tick_hash r = th \<and> row_address r \<in> set addresses)
               (balances_table db)) addresses)"

text \<open>The second loop of \<open>get_running_user_balances\<close>, over the addresses left for the database.\<close>

fun db_balances ::
  "balance_row list \<Rightarrow> string \<Rightarrow> string list \<Rightarrow> balance_current list
   \<Rightarrow> py_error + balance_current list" where
  "db_balances total_balance_tuple t [] balances = Inr balances"
| "db_balances total_balance_tuple t (address # rest) balances =
     (let total = (case find (\<lambda>b. row_address b = address) total_balance_tuple of
                     Some b \<Rightarrow> row_amt b | None \<Rightarrow> D0);
          locked = (case find (\<lambda>b. row_address b = address) total_balance_tuple of
                     Some b \<Rightarrow> row_locked_amt b | None \<Rightarrow> D0)
      in if dec_less total D0 then Inl (RuntimeException ''Negative balance'')
         else db_balances total_balance_tuple t rest
                (balances @ [\<lparr>bc_tick = t, bc_address = address, total_balance = total,
                    locked_balance = Some (if \<not> dec_eq total D0 then locked else D0)\<rparr>]))"

definition get_running_user_balances ::
  "database \<Rightarrow> string \<Rightarrow> string \<Rightarrow> string list \<Rightarrow> src20 list
   \<Rightarrow> py_error + balance_current list" where
  "get_running_user_balances db t th addresses src20_processed_in_block =
     (if \<not> distinct addresses
      then Inl (RuntimeException ''The addresses list is not all unique addresses'')
      else (case (if list_ex (\<lambda>item. tick item = t) src20_processed_in_block
                  then scan_block t th (rev src20_processed_in_block) addresses []
                  else (addresses, [])) of
              (addresses', balances) \<Rightarrow>
                if addresses' \<noteq> []
                then db_balances (get_total_user_balance_from_balances_db db t th addresses')
                       t addresses' balances
                else Inr balances))"

text \<open>\<open>create_running_user_balance_dict\<close>: a later tuple of an address replaces an earlier one.\<close>

definition create_running_user_balance_dict ::
  "balance_current list \<Rightarrow> (string \<rightharpoonup> decimal)" where
  "create_running_user_balance_dict running_user_balance_tuple =
     foldl (\<lambda>m b. m(bc_address b \<mapsto> total_balance b)) Map.empty running_user_balance_tuple"





text \<open>
  Modelled from the spec: \<open>get_src20_deploy\<close> of \<open>index_core.database\<close> is not among the
  sources. The spec says the DEPLOY record of the tick is looked up first in the shadow
  list (a DEPLOY of the same block), then in the persistent store; the result is
  \<open>(lim, max, dec)\<close>, and zeros when there is no DEPLOY (the processor tests both limits
  for falsity).
\<close>

definition get_src20_deploy ::
  "database \<Rightarrow> string \<Rightarrow> src20 list \<Rightarrow> decimal \<times> decimal \<times> int option" where
  "get_src20_deploy db t src20_processed_in_block =
     (case find (\<lambda>item. tick item = t \<and> op item = ''DEPLOY'' \<and> valid item = Some 1)
             src20_processed_in_block of
        Some item \<Rightarrow>
          (case_option D0 id (src_lim item), case_option D0 id (src_max item), dec item)
      | None \<Rightarrow>
          (case deploy_table db t of
             Some r \<Rightarrow> r
           | None \<Rightarrow> (D0, D0, None)))"

subsection \<open>The operation handlers\<close>

text \<open>
  \<open>handle_deploy\<close>. The DEPLOY is accepted when both limits found for the tick are
  falsy. The insert into \<open>src20_metadata\<close> writes none of the fields modelled here.
\<close>

definition handle_deploy :: "string \<Rightarrow> processor \<Rightarrow> py_error + processor" where
  "handle_deploy operation p =
     (if py_upper operation \<noteq> ''DEPLOY'' then Inr p
      else if \<not> dec_truthy (deploy_lim p) \<and> \<not> dec_truthy (deploy_max p)
      then update_valid_src20_list None None operation None p
      else Inr (set_status_and_log DE p))"

text \<open>
  \<open>handle_mint\<close>. The test for an over-mint reads
  \<open>if total_minted >= D(self.deploy_max) if self.deploy_max else D(0):\<close>, a conditional
  expression whose value is the comparison when \<open>deploy_max\<close> is truthy and \<open>D(0)\<close>,
  which is falsy, when it is not.
\<close>

definition handle_mint ::
  "database \<Rightarrow> src20 list \<Rightarrow> string \<Rightarrow> processor \<Rightarrow> py_error + processor" where
  "handle_mint db processed_src20_in_block operation p0 =
     (let p = p0\<lparr>deploy_lim :=
                   (if dec_truthy (deploy_lim p0) \<and> dec_truthy (deploy_max p0)
                    then py_min (deploy_lim p0) (deploy_max p0) else D0)\<rparr>;
          total_minted_now = get_running_mint_total db processed_src20_in_block (tick (src20_dict p));
          mint_available = (if dec_truthy (deploy_max p)
                            then dec_sub (deploy_max p) total_minted_now else D0)
      in if (if dec_truthy (deploy_max p) then dec_le (deploy_max p) total_minted_now else False)
         then Inr (set_status_and_log OM p)
         else (case amt (src20_dict p) of
                 None \<Rightarrow> Inl TypeError
               | Some a \<Rightarrow>
                  (let p1 = (if dec_less mint_available a
                             then (set_status_and_log OMA p)
                                    \<lparr>src20_dict := (src20_dict (set_status_and_log OMA p))
                                        \<lparr>amt := Some mint_available\<rparr>\<rparr>
                             else p);
                       a1 = (if dec_less mint_available a then mint_available else a);
                       p2 = (if dec_less (deploy_lim p1) a1
                             then (set_status_and_log ODL p1)
                                    \<lparr>src20_dict := (src20_dict (set_status_and_log ODL p1))
                                        \<lparr>amt := Some (deploy_lim p1)\<rparr>\<rparr>
                             else p1)
                   in (case get_running_user_balances db (tick (src20_dict p2))
                              (tick_hash (src20_dict p2)) [destination (src20_dict p2)]
                              processed_src20_in_block of
                         Inl e \<Rightarrow> Inl e
                       | Inr running_user_balance_tuple \<Rightarrow>
                          (let running_user_balance =
                                 (case running_user_balance_tuple of
                                    [] \<Rightarrow> D0
                                  | b # _ \<Rightarrow> total_balance b)
                           in update_valid_src20_list (Some running_user_balance) None operation
                                (Some total_minted_now) p2)))))"

text \<open>\<open>handle_transfer\<close>.\<close>

definition handle_transfer ::
  "database \<Rightarrow> src20 list \<Rightarrow> processor \<Rightarrow> py_error + processor" where
  "handle_transfer db processed_src20_in_block p =
     (let d = src20_dict p;
          addresses = (if creator d = destination d then [creator d]
                       else [creator d, destination d])
      in case get_running_user_balances db (tick d) (tick_hash d) addresses
                processed_src20_in_block of
           Inl e \<Rightarrow> Inl e
         | Inr running_user_balance_tuple \<Rightarrow>
            (let running_user_balance_dict =
                   create_running_user_balance_dict running_user_balance_tuple;
                 running_user_balance_creator =
                   case_option D0 id (running_user_balance_dict (creator d));
                 running_user_balance_destination =
                   case_option D0 id (running_user_balance_dict (destination d))
             in case amt d of
                  None \<Rightarrow> Inl TypeError
                | Some a \<Rightarrow>
                   if dec_less running_user_balance_creator a
                   then Inr (set_status_and_log BB p)
                   else update_valid_src20_list (Some running_user_balance_creator)
                          (Some running_user_balance_destination) ''TRANSFER'' None p))"

text \<open>
  \<open>validate_and_process_operation\<close>: the amount check, the DEPLOY lookup and the
  dispatch. \<open>not self.src20_dict.get("amt")\<close> holds for a missing and for a zero amount.
\<close>

definition validate_and_process_operation ::
  "database \<Rightarrow> src20 list \<Rightarrow> processor \<Rightarrow> py_error + processor" where
  "validate_and_process_operation db processed_src20_in_block p =
     (let operation = py_upper (op (src20_dict p));
          op_amt_validations = [''TRANSFER'', ''MINT'']
      in if operation \<in> set op_amt_validations
            \<and> \<not> (case amt (src20_dict p) of None \<Rightarrow> False | Some a \<Rightarrow> dec_truthy a)
         then Inr (set_status_and_log NA p)
         else (case get_src20_deploy db (tick (src20_dict p)) processed_src20_in_block of
                 (lim, mx, dc) \<Rightarrow>
                  (let p' = p\<lparr>deploy_lim := lim, deploy_max := mx, self_dec := dc\<rparr>
                   in if \<not> dec_truthy lim \<and> \<not> dec_truthy mx \<and> operation \<in> set op_amt_validations
                      then Inr (set_status_and_log ND p')
                      else if operation = ''DEPLOY'' then handle_deploy operation p'
                      else if operation = ''MINT''
                      then handle_mint db processed_src20_in_block operation p'
                      else if operation = ''TRANSFER''
                      then handle_transfer db processed_src20_in_block p'
                      else Inr (set_status_and_log UO p'))))"

text \<open>
  A processor as \<open>__init__\<close> builds it for a dictionary (the dictionary has no
  \<open>deploy_lim\<close> or \<open>deploy_max\<close> key, so both start at zero). The three attributes
  are overwritten by the DEPLOY lookup before any handler reads them.
\<close>

definition new_processor :: "(string \<Rightarrow> decimal) \<Rightarrow> src20 \<Rightarrow> processor" where
  "new_processor cache d =
     \<lparr>src20_dict = d, is_valid = True, self_dec = dec d, deploy_lim = D0, deploy_max = D0,
      TOTAL_MINTED_CACHE = cache\<rparr>"

section \<open>Balance updates and the ledger string (index_core/src20.py)\<close>

text \<open>
  An entry of \<open>balance_updates\<close>. \<open>net_change\<close> and \<open>original_amt\<close> are added by
  \<open>update_balance_table\<close>; the keys \<open>tick\<close> and \<open>tick_hash\<close> are the fields \<open>bu_tick\<close> and
  \<open>bu_tick_hash\<close>.
\<close>

record balance_update =
  bu_tick :: string
  bu_tick_hash :: string
  address :: string
  credit :: decimal
  debit :: decimal
  net_change :: "decimal option"
  original_amt :: "decimal option"

text \<open>
  \<open>next((item for item in balance_updates if ...), None)\<close> followed by an update of the
  item found: the first matching entry is changed in place; \<open>None\<close> when none matches.
\<close>

fun apply_first :: "('a \<Rightarrow> bool) \<Rightarrow> ('a \<Rightarrow> 'a) \<Rightarrow> 'a list \<Rightarrow> 'a list option" where
  "apply_first P f [] = None"
| "apply_first P f (x # xs) =
     (if P x then Some (f x # xs) else map_option ((#) x) (apply_first P f xs))"

definition same_row :: "string \<Rightarrow> string \<Rightarrow> string \<Rightarrow> balance_update \<Rightarrow> bool" where
  "same_row t th a item = (bu_tick item = t \<and> bu_tick_hash item = th \<and> address item = a)"

definition add_credit ::
  "string \<Rightarrow> string \<Rightarrow> string \<Rightarrow> decimal \<Rightarrow> balance_update list \<Rightarrow> balance_update list" where
  "add_credit t th a x balance_updates =
     (case apply_first (same_row t th a) (\<lambda>b. b\<lparr>credit := dec_add (credit b) x\<rparr>)
             balance_updates of
        Some updated \<Rightarrow> updated
      | None \<Rightarrow> balance_updates @
          [\<lparr>bu_tick = t, bu_tick_hash = th, address = a, credit = x, debit = D0,
            net_change = None, original_amt = None\<rparr>])"

definition add_debit ::
  "string \<Rightarrow> string \<Rightarrow> string \<Rightarrow> decimal \<Rightarrow> balance_update list \<Rightarrow> balance_update list" where
  "add_debit t th a x balance_updates =
     (case apply_first (same_row t th a) (\<lambda>b. b\<lparr>debit := dec_add (debit b) x\<rparr>)
             balance_updates of
        Some updated \<Rightarrow> updated
      | None \<Rightarrow> balance_updates @
          [\<lparr>bu_tick = t, bu_tick_hash = th, address = a, credit = D0, debit = x,
            net_change = None, original_amt = None\<rparr>])"

text \<open>
  The loop of \<open>update_src20_balances\<close> over the processed records of the block: a valid
  MINT credits its destination, a valid TRANSFER debits its creator and credits its
  destination. \<open>D(src20_dict["amt"])\<close> raises for a missing amount.
\<close>

fun fold_balances :: "src20 list \<Rightarrow> balance_update list \<Rightarrow> py_error + balance_update list" where
  "fold_balances [] balance_updates = Inr balance_updates"
| "fold_balances (item # rest) balance_updates =
     (if valid item = Some 1 then
        (if op item = ''MINT'' then
           (case amt item of
              None \<Rightarrow> Inl TypeError
            | Some a \<Rightarrow> fold_balances rest
                (add_credit (tick item) (tick_hash item) (destination item) a
                   balance_updates))
         else if op item = ''TRANSFER'' then
           (case amt item of
              None \<Rightarrow> Inl TypeError
            | Some a \<Rightarrow> fold_balances rest
                (add_credit (tick item) (tick_hash item) (destination item) a
                  (add_debit (tick item) (tick_hash item) (creator item) a
                     balance_updates)))
         else fold_balances rest balance_updates)
      else fold_balances rest balance_updates)"

text \<open>
  \<open>update_balance_table\<close>: for each entry in turn, the net change, the amount the
  balances table holds under the id \<open>tick_address\<close>, and the upsert of the row. The sum
  \<open>amt + VALUES(amt)\<close> is computed by the database, exactly.
\<close>

definition id_field :: "string \<Rightarrow> string \<Rightarrow> string" where
  "id_field t a = t @ ''_'' @ a"

definition sql_add :: "decimal \<Rightarrow> decimal \<Rightarrow> decimal" where
  "sql_add x y = Dec (fst (aligned x y) + snd (aligned x y)) (min (expo x) (expo y))"

definition upsert_balance :: "balance_update \<Rightarrow> decimal \<Rightarrow> balance_row list \<Rightarrow> balance_row list" where
  "upsert_balance b change table =
     (case apply_first (\<lambda>r. id_field (row_tick r) (row_address r) = id_field (bu_tick b) (address b))
             (\<lambda>r. r\<lparr>row_amt := sql_add (row_amt r) change\<rparr>) table of
        Some updated \<Rightarrow> updated
      | None \<Rightarrow> table @
          [\<lparr>row_tick = bu_tick b, row_tick_hash = bu_tick_hash b, row_address = address b,
            row_amt = change, row_locked_amt = D0\<rparr>])"

fun update_balance_table ::
  "balance_row list \<Rightarrow> balance_update list \<Rightarrow> balance_row list \<times> balance_update list" where
  "update_balance_table table [] = (table, [])"
| "update_balance_table table (balance_dict # rest) =
     (let change = dec_sub (credit balance_dict) (debit balance_dict);
          original =
            (case find (\<lambda>r. id_field (row_tick r) (row_address r)
                                = id_field (bu_tick balance_dict) (address balance_dict)) table of
               Some r \<Rightarrow> row_amt r
             | None \<Rightarrow> D0);
          balance_dict' = balance_dict\<lparr>net_change := Some change, original_amt := Some original\<rparr>
      in case update_balance_table (upsert_balance balance_dict change table) rest of
           (table', rest') \<Rightarrow> (table', balance_dict' # rest'))"

text \<open>
  \<open>update_src20_balances\<close>: the fold, then the table update when there is any entry. It
  returns the entries; the model returns the new table with them.
\<close>

definition update_src20_balances ::
  "database \<Rightarrow> src20 list \<Rightarrow> py_error + (balance_row list \<times> balance_update list)" where
  "update_src20_balances db processed_src20_in_block =
     (case fold_balances processed_src20_in_block [] of
        Inl e \<Rightarrow> Inl e
      | Inr balance_updates \<Rightarrow>
          if balance_updates \<noteq> [] then Inr (update_balance_table (balances_table db) balance_updates)
          else Inr (balances_table db, balance_updates))"

subsection \<open>Rendering amounts and the canonical string\<close>

text \<open>\<open>int(amt)\<close>: the value truncated towards zero.\<close>

definition dec_to_int :: "decimal \<Rightarrow> int" where
  "dec_to_int x =
     (if expo x \<ge> 0 then coeff x * 10 ^ nat (expo x)
      else sgn (coeff x) * (\<bar>coeff x\<bar> div 10 ^ nat (- expo x)))"

text \<open>
  \<open>format(amt, "f")\<close> of a \<open>Decimal\<close> with no precision given: the digits of the
  coefficient with the point placed by the exponent, zeros added where the digits do
  not reach the point, and no point when there is no fractional digit. A zero with a
  positive exponent is first rescaled to exponent zero.
\<close>

definition format_f :: "decimal \<Rightarrow> string" where
  "format_f x0 =
     (let x = (if coeff x0 = 0 \<and> expo x0 > 0 then Dec 0 0 else x0);
          digits = nat_digits (nat \<bar>coeff x\<bar>);
          dotplace = expo x + int (length digits);
          intpart = (if dotplace < 0 then ''0''
                     else if dotplace > int (length digits)
                     then digits @ replicate (nat (dotplace - int (length digits))) (CHR ''0'')
                     else if take (nat dotplace) digits = [] then ''0''
                     else take (nat dotplace) digits);
          fracpart = (if dotplace < 0 then replicate (nat (- dotplace)) (CHR ''0'') @ digits
                      else if dotplace > int (length digits) then []
                      else drop (nat dotplace) digits)
      in (if coeff x < 0 then ''-'' else []) @ intpart
           @ (if fracpart = [] then [] else CHR ''.'' # fracpart))"

text \<open>\<open>s.rstrip(c)\<close> for a single character \<open>c\<close>.\<close>

definition rstrip :: "char \<Rightarrow> string \<Rightarrow> string" where
  "rstrip c s = rev (dropWhile (\<lambda>x. x = c) (rev s))"

definition format_decimal :: "decimal \<Rightarrow> string" where
  "format_decimal a =
     (let amt' = dec_normalize a
      in if dec_eq amt' (D_int (dec_to_int amt')) then str_int (dec_to_int amt')
         else (let s = rstrip (CHR ''.'') (rstrip (CHR ''0'') (format_f amt'))
               in if s = [] then ''0'' else s))"

text \<open>\<open>s.split(",")\<close> and \<open>sep.join(xs)\<close>.\<close>

fun split_on :: "char \<Rightarrow> string \<Rightarrow> string list" where
  "split_on c [] = [[]]"
| "split_on c (x # xs) =
     (if x = c then [] # split_on c xs
      else (case split_on c xs of
              [] \<Rightarrow> [[x]]
            | w # ws \<Rightarrow> (x # w) # ws))"

fun py_join :: "string \<Rightarrow> string list \<Rightarrow> string" where
  "py_join sep [] = []"
| "py_join sep [x] = x"
| "py_join sep (x # y # ys) = x @ sep @ py_join sep (y # ys)"

text \<open>
  The entry of one balance update in \<open>process_balance_updates\<close>.
  \<open>decode_unicode_escapes\<close> belongs to \<open>index_core.util\<close>, which is not among the
  sources: it is the parameter \<open>decode\<close>.
\<close>

definition show_tick :: "(string \<Rightarrow> string) \<Rightarrow> string \<Rightarrow> string" where
  "show_tick decode t = (if CHR 0x5C \<in> set t then decode t else t)"

definition shown_tick :: "(string \<Rightarrow> string) \<Rightarrow> balance_update \<Rightarrow> string" where
  "shown_tick decode b = show_tick decode (bu_tick b)"

definition shown_amt :: "balance_update \<Rightarrow> decimal" where
  "shown_amt b =
     dec_normalize (dec_add (case_option D0 id (net_change b)) (case_option D0 id (original_amt b)))"

definition ledger_entry :: "(string \<Rightarrow> string) \<Rightarrow> balance_update \<Rightarrow> string" where
  "ledger_entry decode b =
     shown_tick decode b @ '','' @ address b @ '','' @ format_decimal (shown_amt b)"

text \<open>The sort key that \<open>process_balance_updates\<close> computes from an entry.\<close>

definition entry_key :: "string \<Rightarrow> string" where
  "entry_key src20 = (split_on (CHR '','') src20) ! 0 @ ''_'' @ (split_on (CHR '','') src20) ! 1"

definition process_balance_updates :: "(string \<Rightarrow> string) \<Rightarrow> balance_update list \<Rightarrow> string" where
  "process_balance_updates decode balance_updates =
     py_join '';'' (sort_key entry_key (map (ledger_entry decode) balance_updates))"

text \<open>
  The ledger string of a block: the balance updates of its processed records, serialized.
\<close>

definition ledger_string :: "(string \<Rightarrow> string) \<Rightarrow> database \<Rightarrow> src20 list \<Rightarrow> py_error + string" where
  "ledger_string decode db processed_src20_in_block =
     (case update_src20_balances db processed_src20_in_block of
        Inl e \<Rightarrow> Inl e
      | Inr (table, balance_updates) \<Rightarrow> Inr (process_balance_updates decode balance_updates))"

subsection \<open>Notions for stating when the sums of a block are exact\<close>

text \<open>
  The value of a decimal in units of \<open>10 ^ (- k)\<close>, for a decimal whose exponent is at
  least \<open>- k\<close>.
\<close>

definition scaled :: "nat \<Rightarrow> decimal \<Rightarrow> int" where
  "scaled k x = coeff x * 10 ^ nat (expo x + int k)"

text \<open>A record that \<open>update_src20_balances\<close> folds: a valid MINT or TRANSFER.\<close>

definition moves :: "src20 \<Rightarrow> bool" where
  "moves item = (valid item = Some 1 \<and> (op item = ''MINT'' \<or> op item = ''TRANSFER''))"

text \<open>The sum of the amounts that the records of a block move, in units of \<open>10 ^ (- k)\<close>.\<close>

definition moved :: "nat \<Rightarrow> src20 list \<Rightarrow> int" where
  "moved k items =
     sum_list (map (\<lambda>item. if moves item then scaled k (case_option D0 id (amt item)) else 0) items)"

text \<open>The balance rows \<open>(tick, tick_hash, address)\<close> that a record touches.\<close>

definition touched_rows :: "src20 \<Rightarrow> (string \<times> string \<times> string) list" where
  "touched_rows item =
     (if valid item = Some 1 then
        (if op item = ''MINT'' then [(tick item, tick_hash item, destination item)]
         else if op item = ''TRANSFER''
         then [(tick item, tick_hash item, creator item),
               (tick item, tick_hash item, destination item)]
         else [])
      else [])"

definition row_id :: "string \<times> string \<times> string \<Rightarrow> string" where
  "row_id r = id_field (fst r) (snd (snd r))"

definition row_sort_key :: "(string \<Rightarrow> string) \<Rightarrow> string \<times> string \<times> string \<Rightarrow> string" where
  "row_sort_key decode r = show_tick decode (fst r) @ ''_'' @ snd (snd r)"

text \<open>
  The steps of the fold, one for each row a record touches: a credit or a debit of a row
  by an amount.
\<close>

datatype event =
  Credit "string \<times> string \<times> string" decimal | Debit "string \<times> string \<times> string" decimal

fun ev_row :: "event \<Rightarrow> string \<times> string \<times> string" where
  "ev_row (Credit r a) = r"
| "ev_row (Debit r a) = r"

fun ev_amt :: "event \<Rightarrow> decimal" where
  "ev_amt (Credit r a) = a"
| "ev_amt (Debit r a) = a"

fun is_credit :: "event \<Rightarrow> bool" where
  "is_credit (Credit r a) = True"
| "is_credit (Debit r a) = False"

definition events_of :: "src20 \<Rightarrow> event list" where
  "events_of item =
     (if valid item = Some 1 then
        (if op item = ''MINT''
         then [Credit (tick item, tick_hash item, destination item) (case_option D0 id (amt item))]
         else if op item = ''TRANSFER''
         then [Debit (tick item, tick_hash item, creator item) (case_option D0 id (amt item)),
               Credit (tick item, tick_hash item, destination item) (case_option D0 id (amt item))]
         else [])
      else [])"

fun apply_event :: "balance_update list \<Rightarrow> event \<Rightarrow> balance_update list" where
  "apply_event bus (Credit r a) = add_credit (fst r) (fst (snd r)) (snd (snd r)) a bus"
| "apply_event bus (Debit r a) = add_debit (fst r) (fst (snd r)) (snd (snd r)) a bus"

text \<open>What the steps credit to a row and debit from it, in units of \<open>10 ^ (- k)\<close>.\<close>

definition credited :: "nat \<Rightarrow> string \<times> string \<times> string \<Rightarrow> event list \<Rightarrow> int" where
  "credited k r es =
     sum_list (map (\<lambda>e. scaled k (ev_amt e)) (filter (\<lambda>e. is_credit e \<and> ev_row e = r) es))"

definition debited :: "nat \<Rightarrow> string \<times> string \<times> string \<Rightarrow> event list \<Rightarrow> int" where
  "debited k r es =
     sum_list (map (\<lambda>e. scaled k (ev_amt e)) (filter (\<lambda>e. \<not> is_credit e \<and> ev_row e = r) es))"

definition row_of :: "balance_update \<Rightarrow> string \<times> string \<times> string" where
  "row_of b = (bu_tick b, bu_tick_hash b, address b)"

text \<open>The amount that the balances table holds under an id; zero when it has no such row.\<close>

definition held :: "balance_row list \<Rightarrow> string \<Rightarrow> decimal" where
  "held table i =
     (case find (\<lambda>r. id_field (row_tick r) (row_address r) = i) table of
        Some r \<Rightarrow> row_amt r
      | None \<Rightarrow> D0)"

text \<open>What \<open>update_balance_table\<close> adds to an entry, for a table it has not yet changed.\<close>

definition annotate :: "balance_row list \<Rightarrow> balance_update \<Rightarrow> balance_update" where
  "annotate table b =
     b\<lparr>net_change := Some (dec_sub (credit b) (debit b)),
       original_amt := Some (held table (id_field (bu_tick b) (address b)))\<rparr>"

text \<open>The rows that the records of a block touch.\<close>

definition touched :: "src20 list \<Rightarrow> (string \<times> string \<times> string) set" where
  "touched items = set (concat (map touched_rows items))"

text \<open>A step whose amount is not negative and has at most \<open>k\<close> decimal places.\<close>

definition good_event :: "nat \<Rightarrow> event \<Rightarrow> bool" where
  "good_event k e = (0 \<le> coeff (ev_amt e) \<and> - int k \<le> expo (ev_amt e))"

text \<open>
  The entries of the fold after the steps \<open>es\<close>, when no sum was rounded: one entry for
  each row of a step, holding what the steps credit to the row and debit from it.
\<close>

definition rows_ok :: "nat \<Rightarrow> event list \<Rightarrow> balance_update list \<Rightarrow> bool" where
  "rows_ok k es bus =
     (distinct (map row_of bus) \<and> row_of ` set bus = ev_row ` set es \<and>
      (\<forall>b \<in> set bus. - int k \<le> expo (credit b) \<and> - int k \<le> expo (debit b) \<and>
          scaled k (credit b) = credited k (row_of b) es \<and>
          scaled k (debit b) = debited k (row_of b) es))"

text \<open>
  The entry of a row in the ledger string, from what the steps credit to the row and debit
  from it and from what the balances table holds for it.
\<close>

definition entry_of ::
  "(string \<Rightarrow> string) \<Rightarrow> balance_row list \<Rightarrow> nat \<Rightarrow> event list \<Rightarrow> string \<times> string \<times> string \<Rightarrow> string" where
  "entry_of decode table k es r =
     show_tick decode (fst r) @ '','' @ snd (snd r) @ '','' @
       format_decimal (dec_normalize
         (Dec (credited k r es - debited k r es + scaled k (held table (row_id r))) (- int k)))"

section \<open>The SRC-20 format check (index_core/src20.py, check_format)\<close>

text \<open>
  A \<open>Decimal\<close> that may be special: finite, an infinity with its sign, or a NaN.
\<close>

datatype pydec = Fin decimal | Inf bool | NaN

text \<open>
  A Python \<open>float\<close>: a NaN, an infinity, or a sign with the exact magnitude
  \<open>m * 2 ^ e\<close> of a finite double.
\<close>

datatype pyfloat = FNan | FInf bool | FFin bool nat int

text \<open>The Python values a payload can hold. A \<open>str\<close> is a list of Latin-1 characters.\<close>

datatype pyval =
  PNone | PBool bool | PInt int | PFloat pyfloat | PStr string | PDec pydec
  | PList "pyval list" | PDict "(string \<times> pyval) list"

subsection \<open>Characters\<close>

definition ascii_digit :: "char \<Rightarrow> bool" where
  "ascii_digit c = (CHR ''0'' \<le> c \<and> c \<le> CHR ''9'')"

text \<open>
  \<open>str.isdigit\<close> on Latin-1: the ten digits and the superscripts two, three and one.
\<close>

definition py_isdigit :: "char \<Rightarrow> bool" where
  "py_isdigit c = (ascii_digit c \<or> c = CHR 0xB2 \<or> c = CHR 0xB3 \<or> c = CHR 0xB9)"

text \<open>The whitespace of \<open>str.strip\<close> on Latin-1.\<close>

definition py_isspace :: "char \<Rightarrow> bool" where
  "py_isspace c =
     (let n = (of_char c :: nat)
      in (9 \<le> n \<and> n \<le> 13) \<or> (28 \<le> n \<and> n \<le> 32) \<or> n = 133 \<or> n = 160)"

definition py_strip :: "string \<Rightarrow> string" where
  "py_strip s = rev (dropWhile py_isspace (rev (dropWhile py_isspace s)))"

text \<open>
  \<open>str.lower\<close>, on the ASCII letters; the comparisons of the source are with ASCII
  words, which no other Latin-1 character lowercases into.
\<close>

definition py_lower :: "string \<Rightarrow> string" where
  "py_lower s =
     map (\<lambda>c. case map_of (zip ''ABCDEFGHIJKLMNOPQRSTUVWXYZ'' ''abcdefghijklmnopqrstuvwxyz'') c of
                Some l \<Rightarrow> l | None \<Rightarrow> c) s"

subsection \<open>\<open>Decimal(string)\<close>\<close>

text \<open>
  The constructor strips whitespace at both ends, drops every underscore, and accepts:
  an optional sign; then digits with an optional point (at least one digit) and an
  optional exponent \<open>e\<close> or \<open>E\<close> with optional sign and digits; or \<open>Inf\<close>, \<open>Infinity\<close>,
  \<open>NaN\<close> or \<open>sNaN\<close> with optional digits, in any letter case. Anything else raises
  \<open>InvalidOperation\<close>, which is \<open>None\<close> here. The conversion is exact, whatever the
  context precision.
\<close>

definition digits_value :: "string \<Rightarrow> int" where
  "digits_value ds = foldl (\<lambda>acc c. 10 * acc + (int (of_char c) - 48)) 0 ds"

definition parse_exponent :: "string \<Rightarrow> int option" where
  "parse_exponent r =
     (case r of
        [] \<Rightarrow> Some 0
      | c # t \<Rightarrow>
         if c = CHR ''e'' \<or> c = CHR ''E'' then
           (let neg = (case t of x # _ \<Rightarrow> x = CHR ''-'' | [] \<Rightarrow> False);
                ds = (case t of x # u \<Rightarrow> if x = CHR ''-'' \<or> x = CHR ''+'' then u else t | [] \<Rightarrow> [])
            in if ds \<noteq> [] \<and> list_all ascii_digit ds
               then Some (if neg then - digits_value ds else digits_value ds)
               else None)
         else None)"

definition parse_finite :: "bool \<Rightarrow> string \<Rightarrow> pydec option" where
  "parse_finite neg r =
     (let intd = takeWhile ascii_digit r;
          r1 = dropWhile ascii_digit r;
          fracd = (case r1 of c # t \<Rightarrow> if c = CHR ''.'' then takeWhile ascii_digit t else [] | [] \<Rightarrow> []);
          r2 = (case r1 of c # t \<Rightarrow> if c = CHR ''.'' then dropWhile ascii_digit t else r1 | [] \<Rightarrow> [])
      in if intd = [] \<and> fracd = [] then None
         else (case parse_exponent r2 of
                 None \<Rightarrow> None
               | Some ex \<Rightarrow>
                  Some (Fin (Dec ((if neg then -1 else 1) * digits_value (intd @ fracd))
                                 (ex - int (length fracd))))))"

definition py_decimal_of_string :: "string \<Rightarrow> pydec option" where
  "py_decimal_of_string s =
     (let s2 = filter (\<lambda>c. c \<noteq> CHR ''_'') (py_strip s)
      in if list_ex (\<lambda>c. (of_char c :: nat) \<ge> 128 \<or> (of_char c :: nat) = 0) s2 then None
         else (let neg = (case s2 of c # _ \<Rightarrow> c = CHR ''-'' | [] \<Rightarrow> False);
                   r = (case s2 of c # t \<Rightarrow> if c = CHR ''-'' \<or> c = CHR ''+'' then t else s2
                                 | [] \<Rightarrow> []);
                   l = py_lower r
               in if l = ''inf'' \<or> l = ''infinity'' then Some (Inf neg)
                  else if (take 3 l = ''nan'' \<and> list_all ascii_digit (drop 3 l))
                       \<or> (take 4 l = ''snan'' \<and> list_all ascii_digit (drop 4 l))
                  then Some NaN
                  else parse_finite neg r))"

subsection \<open>\<open>format(value, "f")\<close> of a float\<close>

text \<open>
  Six decimal places, the exact binary value rounded half to even; \<open>nan\<close>, \<open>inf\<close> and
  \<open>-inf\<close> for the special values.
\<close>

definition float_micro :: "nat \<Rightarrow> int \<Rightarrow> nat" where
  "float_micro m e =
     (if e \<ge> 0 then m * 2 ^ nat e * 10 ^ 6
      else (let num = m * 10 ^ 6; den = 2 ^ nat (- e); q = num div den; r = num mod den
            in if 2 * r > den \<or> (2 * r = den \<and> odd q) then q + 1 else q))"

definition float_format_f :: "pyfloat \<Rightarrow> string" where
  "float_format_f f =
     (case f of
        FNan \<Rightarrow> ''nan''
      | FInf neg \<Rightarrow> (if neg then ''-inf'' else ''inf'')
      | FFin neg m e \<Rightarrow>
          (let ds = nat_digits (float_micro m e);
               padded = replicate (7 - length ds) (CHR ''0'') @ ds
           in (if neg then ''-'' else []) @ take (length padded - 6) padded @ ''.''
                @ drop (length padded - 6) padded))"

subsection \<open>Loading the JSON text\<close>

text \<open>
  A JSON document as \<open>json.loads\<close> scans it: a number is kept as the text of its literal,
  an integer literal (digits only, with an optional minus sign) or a float literal (one
  with a fraction or an exponent). The constants \<open>NaN\<close>, \<open>Infinity\<close> and \<open>-Infinity\<close> are
  accepted by \<open>json.loads\<close> and become floats.
\<close>

datatype json =
  JNull | JTrue | JFalse | JNaN | JInfinity | JNegInfinity
  | JInt string | JFloat string | JString string
  | JArray "json list" | JObject "(string \<times> json) list"

text \<open>
  \<open>parse_no_sci_float\<close>, the \<open>parse_float\<close> hook of \<open>check_format\<close>: a literal with an
  \<open>e\<close> in it raises \<open>ValueError\<close>; any other is handed to \<open>Decimal\<close>.
\<close>

definition parse_no_sci_float :: "string \<Rightarrow> py_error + pydec" where
  "parse_no_sci_float s =
     (if CHR ''e'' \<in> set (py_lower s) then Inl ValueError
      else (case py_decimal_of_string s of None \<Rightarrow> Inl InvalidOperation | Some d \<Rightarrow> Inr d))"

text \<open>
  \<open>json.loads(input_string, parse_float=parse_no_sci_float, parse_int=D)\<close> on the scanned
  document. An exception of a hook leaves \<open>json.loads\<close> as it is. The pairs of an object
  are kept in their order; in the dictionary built from them a later pair replaces an
  earlier one with the same key.
\<close>

fun json_loads :: "json \<Rightarrow> py_error + pyval"
  and json_loads_list :: "json list \<Rightarrow> py_error + pyval list"
  and json_loads_pairs :: "(string \<times> json) list \<Rightarrow> py_error + (string \<times> pyval) list" where
  "json_loads JNull = Inr PNone"
| "json_loads JTrue = Inr (PBool True)"
| "json_loads JFalse = Inr (PBool False)"
| "json_loads JNaN = Inr (PFloat FNan)"
| "json_loads JInfinity = Inr (PFloat (FInf False))"
| "json_loads JNegInfinity = Inr (PFloat (FInf True))"
| "json_loads (JInt s) =
     (case py_decimal_of_string s of None \<Rightarrow> Inl InvalidOperation | Some d \<Rightarrow> Inr (PDec d))"
| "json_loads (JFloat s) =
     (case parse_no_sci_float s of Inl e \<Rightarrow> Inl e | Inr d \<Rightarrow> Inr (PDec d))"
| "json_loads (JString s) = Inr (PStr s)"
| "json_loads (JArray xs) =
     (case json_loads_list xs of Inl e \<Rightarrow> Inl e | Inr vs \<Rightarrow> Inr (PList vs))"
| "json_loads (JObject kvs) =
     (case json_loads_pairs kvs of Inl e \<Rightarrow> Inl e | Inr ps \<Rightarrow> Inr (PDict ps))"
| "json_loads_list [] = Inr []"
| "json_loads_list (x # xs) =
     (case json_loads x of
        Inl e \<Rightarrow> Inl e
      | Inr v \<Rightarrow> (case json_loads_list xs of Inl e \<Rightarrow> Inl e | Inr vs \<Rightarrow> Inr (v # vs)))"
| "json_loads_pairs [] = Inr []"
| "json_loads_pairs ((k, x) # kvs) =
     (case json_loads x of
        Inl e \<Rightarrow> Inl e
      | Inr v \<Rightarrow> (case json_loads_pairs kvs of
                   Inl e \<Rightarrow> Inl e
                 | Inr ps \<Rightarrow> Inr ((k, v) # ps)))"

text \<open>
  What \<open>check_format\<close> is called with: text (\<open>str\<close> or \<open>bytes\<close>) that scans to a JSON
  document, text that does not (\<open>UnicodeDecodeError\<close> or \<open>JSONDecodeError\<close>), a dictionary,
  or a value of another type.
\<close>

datatype check_input =
  JsonText json | BadText | Dictionary "string \<rightharpoonup> pyval" | OtherInput

subsection \<open>The check\<close>

text \<open>
  \<open>config\<close> is not among the sources: the activation height and \<open>TICK_PATTERN_SET\<close> are
  parameters. So is the UTF-8 decoding of a tick that has a character beyond ASCII.
\<close>

record format_config = activation +
  TICK_PATTERN_SET :: "char set"
  utf8_decode :: "string \<Rightarrow> py_error + string"

text \<open>
  \<open>convert_to_utf8_string\<close>: \<open>encode("latin-1").decode("utf-8")\<close> leaves an ASCII string as
  it is; the \<open>UnicodeDecodeError\<close> of another string is not caught.
\<close>

definition convert_to_utf8_string :: "format_config \<Rightarrow> string \<Rightarrow> py_error + string" where
  "convert_to_utf8_string cfg tick_value =
     (if list_all (\<lambda>c. (of_char c :: nat) < 128) tick_value then Inr tick_value
      else utf8_decode cfg tick_value)"

definition matches_any_pattern :: "string \<Rightarrow> char set \<Rightarrow> bool" where
  "matches_any_pattern text char_set = list_all (\<lambda>c. c \<in> char_set) text"

text \<open>The types a checked value may have: \<open>str\<close>, \<open>int\<close> (with \<open>bool\<close>), \<open>float\<close>, \<open>Decimal\<close>.\<close>

definition numeric_type :: "pyval \<Rightarrow> bool" where
  "numeric_type v =
     (case v of PStr s \<Rightarrow> True | PInt i \<Rightarrow> True | PBool b \<Rightarrow> True | PFloat f \<Rightarrow> True
              | PDec d \<Rightarrow> True | _ \<Rightarrow> False)"

definition uint64_max :: decimal where
  "uint64_max = D_int (2 ^ 64 - 1)"

text \<open>
  The conversion of a checked value to a \<open>Decimal\<close>: \<open>None\<close> where \<open>check_format\<close> returns
  \<open>None\<close> (an \<open>InvalidOperation\<close>, a missing value, a value of another type). A \<open>bool\<close> is
  an \<open>int\<close>.
\<close>

definition value_to_decimal :: "format_config \<Rightarrow> int \<Rightarrow> pyval \<Rightarrow> pydec option" where
  "value_to_decimal cfg block_index v =
     (case v of
        PStr s \<Rightarrow>
          (if block_index \<ge> CP_P2WSH_FEAT_BLOCK_START cfg
           then (if s \<noteq> [] then py_decimal_of_string s else Some (Fin D0))
           else (if s \<noteq> []
                 then py_decimal_of_string (filter (\<lambda>c. py_isdigit c \<or> c = CHR ''.'') s)
                 else Some (Fin D0)))
      | PBool b \<Rightarrow> Some (Fin (D_int (if b then 1 else 0)))
      | PInt i \<Rightarrow> Some (Fin (D_int i))
      | PFloat f \<Rightarrow> py_decimal_of_string (float_format_f f)
      | PDec d \<Rightarrow> Some d
      | _ \<Rightarrow> None)"

text \<open>\<open>value.is_nan() or not (D("0") <= value <= uint64_max)\<close>, negated.\<close>

definition in_uint64_range :: "pydec \<Rightarrow> bool" where
  "in_uint64_range d =
     (case d of Fin x \<Rightarrow> dec_le D0 x \<and> dec_le x uint64_max | Inf neg \<Rightarrow> False | NaN \<Rightarrow> False)"

definition numeric_field_ok :: "format_config \<Rightarrow> int \<Rightarrow> pyval option \<Rightarrow> bool" where
  "numeric_field_ok cfg block_index value =
     (case value of
        None \<Rightarrow> False
      | Some v \<Rightarrow> (case value_to_decimal cfg block_index v of
                     None \<Rightarrow> False
                   | Some d \<Rightarrow> in_uint64_range d))"

text \<open>
  The keys whose values the loop over \<open>key_sets\<close> checks, in its order: \<open>max\<close> and \<open>lim\<close>
  when the payload has the DEPLOY keys, \<open>amt\<close> for each of the TRANSFER, MINT and
  BULK_XFER key sets that the payload has.
\<close>

definition checked_keys :: "(string \<rightharpoonup> pyval) \<Rightarrow> string list" where
  "checked_keys input_dict =
     (if {''op'', ''tick'', ''max'', ''lim''} \<subseteq> dom input_dict then [''max'', ''lim''] else [])
     @ (if {''op'', ''tick'', ''amt''} \<subseteq> dom input_dict then [''amt''] else [])
     @ (if {''op'', ''tick'', ''amt''} \<subseteq> dom input_dict then [''amt''] else [])
     @ (if {''op'', ''tick'', ''amt'', ''destinations''} \<subseteq> dom input_dict then [''amt''] else [])"

text \<open>
  \<open>check_format\<close> on a dictionary: the part after the input has been loaded. \<open>.lower()\<close> on
  a \<open>p\<close> that is missing or not a string, and \<open>.encode\<close> on a tick that is not a string,
  raise \<open>AttributeError\<close>.
\<close>

definition check_dict ::
  "format_config \<Rightarrow> (string \<rightharpoonup> pyval) \<Rightarrow> int \<Rightarrow> py_error + (string \<rightharpoonup> pyval) option" where
  "check_dict cfg input_dict block_index =
     (case input_dict ''p'' of
        Some (PStr p) \<Rightarrow>
          if py_lower p = ''src-721'' then Inr (Some input_dict)
          else if py_lower p = ''src-20'' then
            (case (case input_dict ''tick'' of None \<Rightarrow> Some (PStr []) | v \<Rightarrow> v) of
               Some (PStr t) \<Rightarrow>
                 (case convert_to_utf8_string cfg t of
                    Inl e \<Rightarrow> Inl e
                  | Inr tick_value \<Rightarrow>
                     (let input_dict' = input_dict(''tick'' \<mapsto> PStr tick_value)
                      in if tick_value = [] \<or> \<not> matches_any_pattern tick_value (TICK_PATTERN_SET cfg)
                            \<or> length tick_value > 5
                         then Inr None
                         else if list_all (\<lambda>key. numeric_field_ok cfg block_index (input_dict' key))
                                   (checked_keys input_dict')
                         then Inr (Some input_dict')
                         else Inr None))
             | _ \<Rightarrow> Inl AttributeError)
          else Inr None
      | _ \<Rightarrow> Inl AttributeError)"

definition dict_of_pairs :: "(string \<times> pyval) list \<Rightarrow> (string \<rightharpoonup> pyval)" where
  "dict_of_pairs ps = map_of (rev ps)"

text \<open>
  \<open>check_format\<close>. Every exception of the loading (\<open>JSONDecodeError\<close>, \<open>TypeError\<close>,
  \<open>ValueError\<close>) gives \<open>None\<close>; a document that is not an object has no \<open>get\<close>.
\<close>

definition check_format ::
  "format_config \<Rightarrow> check_input \<Rightarrow> int \<Rightarrow> py_error + (string \<rightharpoonup> pyval) option" where
  "check_format cfg input_string block_index =
     (case input_string of
        OtherInput \<Rightarrow> Inr None
      | BadText \<Rightarrow> Inr None
      | Dictionary input_dict \<Rightarrow> check_dict cfg input_dict block_index
      | JsonText doc \<Rightarrow>
          (case json_loads doc of
             Inl e \<Rightarrow> Inr None
           | Inr (PDict ps) \<Rightarrow> check_dict cfg (dict_of_pairs ps) block_index
           | Inr _ \<Rightarrow> Inl AttributeError))"

text \<open>The dictionary that \<open>check_format\<close> examines for an input, when the input gives one.\<close>

definition loaded_dict :: "check_input \<Rightarrow> (string \<rightharpoonup> pyval) option" where
  "loaded_dict input_string =
     (case input_string of
        Dictionary input_dict \<Rightarrow> Some input_dict
      | JsonText doc \<Rightarrow>
          (case json_loads doc of Inr (PDict ps) \<Rightarrow> Some (dict_of_pairs ps) | _ \<Rightarrow> None)
      | _ \<Rightarrow> None)"

text \<open>Whether a result of \<open>check_format\<close> is a dictionary (and not \<open>None\<close> or an exception).\<close>

definition accepted :: "py_error + (string \<rightharpoonup> pyval) option \<Rightarrow> bool" where
  "accepted r = (case r of Inr (Some d) \<Rightarrow> True | _ \<Rightarrow> False)"

text \<open>Whether a number of a JSON document is written with an \<open>e\<close> or \<open>E\<close>.\<close>

fun has_sci_literal :: "json \<Rightarrow> bool"
  and has_sci_literal_list :: "json list \<Rightarrow> bool"
  and has_sci_literal_pairs :: "(string \<times> json) list \<Rightarrow> bool" where
  "has_sci_literal (JFloat s) = (CHR ''e'' \<in> set s \<or> CHR ''E'' \<in> set s)"
| "has_sci_literal (JArray xs) = has_sci_literal_list xs"
| "has_sci_literal (JObject kvs) = has_sci_literal_pairs kvs"
| "has_sci_literal JNull = False"
| "has_sci_literal JTrue = False"
| "has_sci_literal JFalse = False"
| "has_sci_literal JNaN = False"
| "has_sci_literal JInfinity = False"
| "has_sci_literal JNegInfinity = False"
| "has_sci_literal (JInt s) = False"
| "has_sci_literal (JString s) = False"
| "has_sci_literal_list [] = False"
| "has_sci_literal_list (x # xs) = (has_sci_literal x \<or> has_sci_literal_list xs)"
| "has_sci_literal_pairs [] = False"
| "has_sci_literal_pairs ((k, x) # kvs) = (has_sci_literal x \<or> has_sci_literal_pairs kvs)"

section \<open>Sample inputs\<close>

text \<open>
  The token of the spec's first scenario: \<open>dogs\<close>, deployed with max 1000, lim 100 and
  dec 0, of which 60 are minted and held by the address \<open>A\<close>; a MINT of an amount \<open>a\<close>
  to the address \<open>B\<close>, a TRANSFER of \<open>a\<close> from \<open>A\<close> to \<open>D\<close>, and the processor that
  handles a record after the DEPLOY lookup.
\<close>

definition dogs_db :: database where
  "dogs_db = \<lparr>deploy_table = [''dogs'' \<mapsto> (Dec 100 0, Dec 1000 0, Some 0)],
      get_total_src20_minted_from_db = (\<lambda>t. Dec 60 0),
      balances_table = [\<lparr>row_tick = ''dogs'', row_tick_hash = ''h'', row_address = ''A'',
                          row_amt = Dec 60 0, row_locked_amt = D0\<rparr>]\<rparr>"

definition dogs_mint :: "decimal \<Rightarrow> src20" where
  "dogs_mint a = \<lparr>tick = ''dogs'', tick_hash = ''h'', op = ''MINT'', src_max = None,
      src_lim = None, amt = Some a, dec = None, status = None, valid = None, creator = ''A'',
      destination = ''B'', total_minted = None, total_balance_creator = None,
      total_balance_destination = None\<rparr>"


definition dogs_processor :: "src20 \<Rightarrow> processor" where
  "dogs_processor d = \<lparr>src20_dict = d, is_valid = True, self_dec = Some 0,
      deploy_lim = Dec 100 0, deploy_max = Dec 1000 0, TOTAL_MINTED_CACHE = (\<lambda>t. D0)\<rparr>"

text \<open>Three balance updates of a block, after \<open>update_balance_table\<close>.\<close>

definition sample_rows :: "balance_update list" where
  "sample_rows = [
     \<lparr>bu_tick = ''kevin'', bu_tick_hash = ''k'', address = ''bc1q'', credit = Dec 150 (-2),
       debit = D0, net_change = Some (Dec 150 (-2)), original_amt = Some D0\<rparr>,
     \<lparr>bu_tick = ''dogs'', bu_tick_hash = ''h'', address = ''B'', credit = Dec 1 2, debit = D0,
       net_change = Some (Dec 1 2), original_amt = Some (Dec 60 0)\<rparr>,
     \<lparr>bu_tick = ''dogs'', bu_tick_hash = ''h'', address = ''A'', credit = D0, debit = Dec 60 0,
       net_change = Some (Dec (-60) 0), original_amt = Some (Dec 60 0)\<rparr>]"

text \<open>
  A DEPLOY of the tick \<open>zero\<close> with max 0 and lim 0, as the validator leaves it, an empty
  database and an empty mint cache.
\<close>

definition zero_deploy :: src20 where
  "zero_deploy = \<lparr>tick = ''zero'', tick_hash = ''z'', op = ''DEPLOY'', src_max = Some (Dec 0 0),
      src_lim = Some (Dec 0 0), amt = None, dec = None, status = None, valid = None,
      creator = ''A'', destination = ''A'', total_minted = None, total_balance_creator = None,
      total_balance_destination = None\<rparr>"

definition empty_db :: database where
  "empty_db = \<lparr>deploy_table = Map.empty, get_total_src20_minted_from_db = (\<lambda>t. D0),
      balances_table = []\<rparr>"

definition empty_cache :: "string \<Rightarrow> decimal" where
  "empty_cache t = D0"

text \<open>
  A configuration with the activation heights of the deployed indexer and the lowercase
  letters as tick characters; a MINT payload of \<open>dogs\<close> with a given amount.
\<close>

definition sample_cfg :: format_config where
  "sample_cfg = \<lparr>CP_P2WSH_FEAT_BLOCK_START = 833000, STOP_BASE64_REPAIR = 784550,
      TICK_PATTERN_SET = set ''abcdefghijklmnopqrstuvwxyz'',
      utf8_decode = (\<lambda>s. Inl (RuntimeException ''UnicodeDecodeError''))\<rparr>"

definition mint_payload :: "pyval \<Rightarrow> (string \<rightharpoonup> pyval)" where
  "mint_payload a =
     [''p'' \<mapsto> PStr ''src-20'', ''op'' \<mapsto> PStr ''mint'', ''amt'' \<mapsto> a, ''tick'' \<mapsto> PStr ''dogs'']"

definition mint_json :: "json \<Rightarrow> json" where
  "mint_json a =
     JObject [(''p'', JString ''src-20''), (''op'', JString ''mint''), (''tick'', JString ''dogs''),
              (''amt'', a)]"

text \<open>What a handler leaves behind, for stating results: the fields a claim speaks of.\<close>

definition outcome ::
  "py_error + processor \<Rightarrow>
   py_error + (status_code option \<times> bool \<times> int option \<times> decimal option \<times> decimal option
               \<times> decimal option \<times> decimal option)" where
  "outcome x =
     map_sum id (\<lambda>r. (status (src20_dict r), is_valid r, valid (src20_dict r), amt (src20_dict r),
                      total_minted (src20_dict r), total_balance_creator (src20_dict r),
                      total_balance_destination (src20_dict r))) x"

section \<open>Properties of the stamp numbering\<close>

lemma classify_stamp_cursed:
  "truthy_flag (is_cursed (classify_stamp bad sd)) \<Longrightarrow> \<not> truthy_flag (is_cursed sd)
   \<Longrightarrow> \<not> truthy_flag (is_btc_stamp (classify_stamp bad sd))"
  by (auto simp: classify_stamp_def truthy_flag_def split: if_splits)

text \<open>
  Claim C10. A record that enters the classification with \<open>is_cursed\<close> unset (nothing
  earlier in \<open>parse_stamp\<close> sets it) never leaves it with both flags set; the counter
  drawn is \<open>stamp\<close> exactly when \<open>is_btc_stamp\<close> is set in the final record, \<open>cursed\<close>
  exactly when \<open>is_cursed\<close> is set and \<open>is_btc_stamp\<close> is not, and the record has no
  number exactly when neither flag is set.
\<close>

theorem parse_stamp_flags_exclusive:
  fixes sd :: stamp_data and bad :: "string option set" and next_number :: "string \<Rightarrow> int"
  assumes "\<not> truthy_flag (is_cursed sd)"
  defines "r \<equiv> classify_and_number bad next_number sd"
  shows "\<not> (truthy_flag (is_btc_stamp r) \<and> truthy_flag (is_cursed r)) \<and>
         ((stamp r = Some (next_number ''stamp'') \<and> drawn_counter r = Some ''stamp'')
            = truthy_flag (is_btc_stamp r)) \<and>
         ((stamp r = Some (next_number ''cursed'') \<and> drawn_counter r = Some ''cursed'')
            = (truthy_flag (is_cursed r) \<and> \<not> truthy_flag (is_btc_stamp r))) \<and>
         ((stamp r = None)
            = (\<not> truthy_flag (is_btc_stamp r) \<and> \<not> truthy_flag (is_cursed r)))"
proof -
  let ?c = "classify_stamp bad sd"
  have flags: "is_btc_stamp r = is_btc_stamp ?c" "is_cursed r = is_cursed ?c"
    and num: "stamp r = map_option next_number (drawn_counter ?c)"
    and dr: "drawn_counter r = drawn_counter ?c"
    by (simp_all add: r_def classify_and_number_def assign_stamp_number_def drawn_counter_def)
  have excl: "\<not> (truthy_flag (is_btc_stamp r) \<and> truthy_flag (is_cursed r))"
    using classify_stamp_cursed[of bad sd] assms(1) by (auto simp: flags)
  have a: "(stamp r = Some (next_number ''stamp'') \<and> drawn_counter r = Some ''stamp'')
            = truthy_flag (is_btc_stamp r)"
    by (auto simp: num dr flags drawn_counter_def)
  have b: "(stamp r = Some (next_number ''cursed'') \<and> drawn_counter r = Some ''cursed'')
            = (truthy_flag (is_cursed r) \<and> \<not> truthy_flag (is_btc_stamp r))"
    by (auto simp: num dr flags drawn_counter_def)
  have c: "(stamp r = None)
            = (\<not> truthy_flag (is_btc_stamp r) \<and> \<not> truthy_flag (is_cursed r))"
    by (auto simp: num flags drawn_counter_def)
  from excl a b c show ?thesis by blast
qed

text \<open>
  The theorem at a transaction with an asset longname: the record ends cursed, without the
  BTC flag, and draws its number from the \<open>cursed\<close> counter.
\<close>

theorem parse_stamp_flags_exclusive_witness:
  "\<not> truthy_flag (is_cursed
       \<lparr>ident = ''STAMP'', asset_longname = Some ''A1.SUB'', cpid = Some ''A1'',
        is_op_return = False, file_suffix = Some ''png'', is_btc_stamp = None,
        is_cursed = None, stamp = None\<rparr>) \<and>
   is_btc_stamp (classify_and_number {Some ''plain''} (\<lambda>c. if c = ''stamp'' then 7 else -3)
       \<lparr>ident = ''STAMP'', asset_longname = Some ''A1.SUB'', cpid = Some ''A1'',
        is_op_return = False, file_suffix = Some ''png'', is_btc_stamp = None,
        is_cursed = None, stamp = None\<rparr>) = None \<and>
   stamp (classify_and_number {Some ''plain''} (\<lambda>c. if c = ''stamp'' then 7 else -3)
       \<lparr>ident = ''STAMP'', asset_longname = Some ''A1.SUB'', cpid = Some ''A1'',
        is_op_return = False, file_suffix = Some ''png'', is_btc_stamp = None,
        is_cursed = None, stamp = None\<rparr>) = Some (-3)"
  using parse_stamp_flags_exclusive
    [of "\<lparr>ident = ''STAMP'', asset_longname = Some ''A1.SUB'', cpid = Some ''A1'',
        is_op_return = False, file_suffix = Some ''png'', is_btc_stamp = None,
        is_cursed = None, stamp = None\<rparr>" "{Some ''plain''}"
        "\<lambda>c. if c = ''stamp'' then 7 else -3"]
  by (simp add: classify_and_number_def assign_stamp_number_def classify_stamp_def
      drawn_counter_def truthy_flag_def truthy_str_def startswith_A_def)

section \<open>Properties of the base64 decoding\<close>

lemma pad_mod: "(n + (4 - n mod 4)) mod 4 = (0::nat)"
proof -
  define r where "r = n mod 4"
  have r: "r = 0 \<or> r = 1 \<or> r = 2 \<or> r = 3" unfolding r_def by linarith
  have "(n + (4 - r)) mod 4 = (r + (4 - r)) mod 4"
    unfolding r_def by (rule mod_add_left_eq[symmetric])
  also have "\<dots> = 0" using r by auto
  finally show ?thesis unfolding r_def .
qed

lemma repair_padding_shape:
  "\<exists>k\<le>3. (length s + k) mod 4 = 0 \<and> repair_padding s = s @ replicate k (CHR ''='')"
proof (cases "length s mod 4 = 0")
  case True
  then have "(0::nat) \<le> 3 \<and> (length s + 0) mod 4 = 0 \<and>
             repair_padding s = s @ replicate 0 (CHR ''='')"
    by (simp add: repair_padding_def)
  then show ?thesis by (rule exI[of _ 0])
next
  case False
  let ?k = "4 - length s mod 4"
  have "?k \<le> 3" using False by linarith
  moreover have "(length s + ?k) mod 4 = 0" by (rule pad_mod)
  moreover have "repair_padding s = s @ replicate ?k (CHR ''='')"
    using False by (simp add: repair_padding_def)
  ultimately have "?k \<le> 3 \<and> (length s + ?k) mod 4 = 0 \<and>
                   repair_padding s = s @ replicate ?k (CHR ''='')"
    by (intro conjI)
  then show ?thesis by (rule exI[of _ ?k])
qed

lemma check_valid_base64_string_fails:
  "length s mod 4 \<noteq> 0 \<or> \<not> set s \<subseteq> rfc4648_alphabet \<Longrightarrow> \<not> check_valid_base64_string s"
  by (auto simp: check_valid_base64_string_def list_all_iff)

lemma decode_base64_rejects:
  "CP_P2WSH_FEAT_BLOCK_START cfg \<le> h \<Longrightarrow> \<not> check_valid_base64_string s
   \<Longrightarrow> decode_base64 cfg ds s h = (None, None)"
  by (simp add: decode_base64_def)

lemma decode_base64_repairs:
  "h \<le> STOP_BASE64_REPAIR cfg
   \<Longrightarrow> h < CP_P2WSH_FEAT_BLOCK_START cfg \<or> check_valid_base64_string s
   \<Longrightarrow> decode_base64 cfg ds s h =
          (case b64decode ds (repair_padding s) of
             None \<Rightarrow> (None, None)
           | Some image_data \<Rightarrow> (Some image_data, Some True))"
  by (auto simp: decode_base64_def decode_base64_with_repair_def Let_def split: option.splits)

text \<open>
  What \<open>decode_base64\<close> does on the two paths: at every height at or above the p2wsh
  activation, a string whose length is not a multiple of four or that has a character
  outside the RFC 4648 alphabet gives \<open>(None, None)\<close>; at every height at or below the
  repair cutoff, where the validation does not apply or the string passes it, the string is
  padded with at most three \<open>=\<close> to a length that is a multiple of four and then decoded,
  a failing decode giving \<open>(None, None)\<close> and a successful one the bytes and the flag
  \<open>True\<close>.
\<close>

lemma decode_base64_validation_and_repair:
  "(CP_P2WSH_FEAT_BLOCK_START cfg \<le> h \<and>
      (length s mod 4 \<noteq> 0 \<or> \<not> set s \<subseteq> rfc4648_alphabet)
      \<longrightarrow> decode_base64 cfg ds s h = (None, None)) \<and>
   (h \<le> STOP_BASE64_REPAIR cfg \<and>
      (h < CP_P2WSH_FEAT_BLOCK_START cfg \<or> check_valid_base64_string s)
      \<longrightarrow> (\<exists>k\<le>3. (length s + k) mod 4 = 0 \<and>
             decode_base64 cfg ds s h =
               (case b64decode ds (s @ replicate k (CHR ''='')) of
                  None \<Rightarrow> (None, None)
                | Some image_data \<Rightarrow> (Some image_data, Some True))))"
proof (rule conjI; rule impI)
  assume "CP_P2WSH_FEAT_BLOCK_START cfg \<le> h \<and>
      (length s mod 4 \<noteq> 0 \<or> \<not> set s \<subseteq> rfc4648_alphabet)"
  then show "decode_base64 cfg ds s h = (None, None)"
    using check_valid_base64_string_fails[of s] decode_base64_rejects[of cfg h s ds] by simp
next
  assume a: "h \<le> STOP_BASE64_REPAIR cfg \<and>
      (h < CP_P2WSH_FEAT_BLOCK_START cfg \<or> check_valid_base64_string s)"
  from repair_padding_shape[of s] obtain k where k: "k \<le> 3 \<and> (length s + k) mod 4 = 0 \<and>
      repair_padding s = s @ replicate k (CHR ''='')"
    by (elim exE)
  have "decode_base64 cfg ds s h =
          (case b64decode ds (repair_padding s) of
             None \<Rightarrow> (None, None)
           | Some image_data \<Rightarrow> (Some image_data, Some True))"
    using a by (intro decode_base64_repairs) simp_all
  with k have "k \<le> 3 \<and> (length s + k) mod 4 = 0 \<and>
             decode_base64 cfg ds s h =
               (case b64decode ds (s @ replicate k (CHR ''='')) of
                  None \<Rightarrow> (None, None)
                | Some image_data \<Rightarrow> (Some image_data, Some True))"
    by simp
  then show "\<exists>k\<le>3. (length s + k) mod 4 = 0 \<and>
             decode_base64 cfg ds s h =
               (case b64decode ds (s @ replicate k (CHR ''='')) of
                  None \<Rightarrow> (None, None)
                | Some image_data \<Rightarrow> (Some image_data, Some True))"
    by (rule exI[of _ k])
qed

text \<open>
  The repair path at \<open>QUJ\<close> and height 780000, below the activation and below the cutoff:
  one \<open>=\<close> is added before decoding.
\<close>

lemma decode_base64_repair_example:
  "decode_base64 \<lparr>CP_P2WSH_FEAT_BLOCK_START = 833000, STOP_BASE64_REPAIR = 784550\<rparr>
     \<lparr>b64decode = [''QUJ='' \<mapsto> ''AB''], pybase64_b64decode = Map.empty,
      cli_base64_d = Map.empty\<rparr>
     ''QUJ'' 780000 = (Some ''AB'', Some True)"
  by (simp add: decode_base64_def decode_base64_with_repair_def repair_padding_def)

text \<open>
  Claim C7 at the string \<open>abc\<close> (three characters, so not a multiple of four) and height
  833000, at the p2wsh activation. The claim says the result is \<open>(None, invalid)\<close>, and
  the docstring of \<open>decode_base64\<close> says the second component is a boolean, \<open>False\<close>
  when decoding does not succeed. The code returns the literal \<open>None, None\<close>: the flag is
  \<open>None\<close>, not \<open>False\<close>, as on every other failure path.
\<close>

theorem decode_base64_invalid_flag_none:
  "\<not> check_valid_base64_string ''abc'' \<and>
   decode_base64 \<lparr>CP_P2WSH_FEAT_BLOCK_START = 833000, STOP_BASE64_REPAIR = 784550\<rparr>
     \<lparr>b64decode = Map.empty, pybase64_b64decode = Map.empty, cli_base64_d = Map.empty\<rparr>
     ''abc'' 833000 = (None, None) \<and>
   snd (decode_base64 \<lparr>CP_P2WSH_FEAT_BLOCK_START = 833000, STOP_BASE64_REPAIR = 784550\<rparr>
     \<lparr>b64decode = Map.empty, pybase64_b64decode = Map.empty, cli_base64_d = Map.empty\<rparr>
     ''abc'' 833000) \<noteq> Some False"
  by (simp add: decode_base64_def check_valid_base64_string_def)

section \<open>Properties of the base62 digest\<close>














section \<open>Properties of the decimal arithmetic\<close>

lemma ndigits_rec: "ndigits n = (if n < 10 then 1 else Suc (ndigits (n div 10)))"
  unfolding ndigits_def by (subst nat_digits.simps) simp

lemma ndigits_pos: "0 < ndigits n"
  by (subst ndigits_rec) simp

lemma ndigits_le_iff: "0 < k \<Longrightarrow> (ndigits n \<le> k) = (n < 10 ^ k)"
proof (induction k arbitrary: n)
  case 0
  then show ?case by simp
next
  case (Suc k)
  show ?case
  proof (cases "n < 10")
    case True
    have "(10::nat) \<le> 10 ^ Suc k" by (simp add: self_le_power)
    with True have "n < 10 ^ Suc k" by linarith
    moreover have "ndigits n = 1" using True by (subst ndigits_rec) simp
    ultimately show ?thesis by simp
  next
    case False
    then have nd: "ndigits n = Suc (ndigits (n div 10))" by (subst ndigits_rec) simp
    show ?thesis
    proof (cases "k = 0")
      case True
      with False nd ndigits_pos[of "n div 10"] show ?thesis by simp
    next
      case kpos: False
      then have "(ndigits (n div 10) \<le> k) = (n div 10 < 10 ^ k)" using Suc.IH by simp
      moreover have "(n div 10 < 10 ^ k) = (n < 10 ^ Suc k)"
        by (simp add: div_less_iff_less_mult mult.commute)
      ultimately show ?thesis using nd by simp
    qed
  qed
qed

lemma dec_fix_exact: "\<bar>coeff x\<bar> < 10 ^ 28 \<Longrightarrow> dec_fix x = x"
proof -
  assume a: "\<bar>coeff x\<bar> < 10 ^ 28"
  have "nat \<bar>coeff x\<bar> < 10 ^ 28"
    using a by (simp add: nat_less_iff)
  then have "ndigits (nat \<bar>coeff x\<bar>) \<le> getcontext_prec"
    by (simp add: ndigits_le_iff getcontext_prec_def)
  then show ?thesis by (simp add: dec_fix_def Let_def)
qed
lemma strip_zeros_numeral:
  "strip_zeros (numeral k) e =
     (if (numeral k :: int) mod 10 = 0 then strip_zeros (numeral k div 10) (e + 1)
      else Dec (numeral k) e)"
  by (subst strip_zeros.simps) simp

lemma strip_zeros_neg_numeral:
  "strip_zeros (- numeral k) e =
     (if (- numeral k :: int) mod 10 = 0 then strip_zeros (- numeral k div 10) (e + 1)
      else Dec (- numeral k) e)"
  by (subst strip_zeros.simps) simp

lemma strip_zeros_1: "strip_zeros 1 e = Dec 1 e"
  by (subst strip_zeros.simps) simp

lemma dec_normalize_exact:
  "\<bar>c\<bar> < 10 ^ 28 \<Longrightarrow> dec_normalize (Dec c e) = (if c = 0 then Dec 0 0 else strip_zeros c e)"
  by (simp add: dec_normalize_def dec_fix_exact)

lemma dec_add_exact:
  "\<bar>fst (aligned x y) + snd (aligned x y)\<bar> < 10 ^ 28
   \<Longrightarrow> dec_add x y = Dec (fst (aligned x y) + snd (aligned x y)) (min (expo x) (expo y))"
  by (simp add: dec_add_def dec_fix_exact)

lemmas dec_eval = strip_zeros_numeral strip_zeros_neg_numeral strip_zeros_1 dec_normalize_exact
  dec_add_exact dec_sub_def dec_neg_def aligned_def dec_less_def dec_le_def dec_eq_def
  dec_truthy_def py_min_def D0_def D_int_def


lemma nat_digits_numeral:
  "nat_digits (numeral k) =
     (if numeral k < (10::nat) then [digit_char (numeral k)]
      else nat_digits (numeral k div 10) @ [digit_char (numeral k mod 10)])"
  by (rule nat_digits.simps)

lemma nat_digits_0: "nat_digits 0 = ''0''"
  by (simp add: nat_digits.simps digit_char_def)

lemma nat_digits_1: "nat_digits 1 = ''1''"
  by (simp add: nat_digits.simps digit_char_def)

lemma nat_digits_Suc0: "nat_digits (Suc 0) = ''1''"
  by (simp add: nat_digits.simps digit_char_def)

lemmas digits_eval = nat_digits_numeral nat_digits_0 nat_digits_1 nat_digits_Suc0 digit_char_def

section \<open>Properties of the MINT handler\<close>

lemma dogs_running_mint_total: "get_running_mint_total dogs_db [] ''dogs'' = Dec 60 0"
  by (simp add: get_running_mint_total_def dogs_db_def dec_eval)

lemma dogs_running_balance_B:
  "get_running_user_balances dogs_db ''dogs'' ''h'' [''B''] [] =
     Inr [\<lparr>bc_tick = ''dogs'', bc_address = ''B'', total_balance = Dec 0 0,
           locked_balance = Some (Dec 0 0)\<rparr>]"
  by (simp add: get_running_user_balances_def get_total_user_balance_from_balances_db_def
      dogs_db_def dec_eval Let_def)

text \<open>
  Claim C2, as stated, fails: with 60 of 1000 minted, a MINT of 1.5 on the token with
  \<open>dec = 0\<close> is below the remaining supply and below the cap, and yet it is not valid:
  it gets status ID, and no running total is recorded.
\<close>

theorem handle_mint_decimals_counterexample:
  "\<not> dec_le (Dec 1000 0) (get_running_mint_total dogs_db [] ''dogs'') \<and>
   outcome (handle_mint dogs_db [] ''MINT'' (dogs_processor (dogs_mint (Dec 15 (-1)))))
     = Inr (Some ID, False, None, Some (Dec 15 (-1)), None, None, None)"
  by (simp add: handle_mint_def dogs_processor_def dogs_mint_def dogs_running_mint_total
      dogs_running_balance_B Let_def outcome_def update_valid_src20_list_def
      normalize_and_validate_amt_def set_status_and_log_def dec_eval)

lemma update_valid_mint:
  assumes "amt (src20_dict p) = Some a"
  shows "update_valid_src20_list (Some c) None ''MINT'' (Some t) p =
     Inr (if - expo (dec_normalize a) > case_option 18 id (self_dec p)
          then set_status_and_log ID p
          else mark_valid (p\<lparr>self_dec := Some (case_option 18 id (self_dec p)),
                 TOTAL_MINTED_CACHE := (TOTAL_MINTED_CACHE p)
                    (tick (src20_dict p) := dec_add (TOTAL_MINTED_CACHE p (tick (src20_dict p))) (dec_normalize a)),
                 src20_dict := (src20_dict p)
                    \<lparr>amt := Some (dec_normalize a), dec := Some (case_option 18 id (self_dec p)),
                     total_minted := Some (dec_add t (dec_normalize a)),
                     total_balance_destination := Some (dec_add c (dec_normalize a))\<rparr>\<rparr>))"
  using assms
  by (cases "self_dec p")
     (simp_all add: update_valid_src20_list_def normalize_and_validate_amt_def Let_def)

text \<open>
  Claim C2, amended. For a MINT on a tick whose DEPLOY has a nonzero max, with the running
  total \<open>minted\<close>: when \<open>minted \<ge> max\<close> the mint gets status OM, is invalid and nothing
  else of its record changes. Otherwise the amount is clamped to \<open>max - minted\<close> (status
  OMA) and then to \<open>min(lim, max)\<close> (status ODL; the cap is zero when lim is zero), and
  normalized. When the normalized amount has more decimal places than \<open>dec\<close> the mint
  gets status ID and is invalid; otherwise it is valid, its running total is
  \<open>minted + amt\<close> and the destination's running balance is credited by \<open>amt\<close>.
\<close>

theorem handle_mint_cases:
  fixes db :: database and shadow :: "src20 list" and p :: processor and a :: decimal
    and tuple :: "balance_current list"
  assumes mx: "dec_truthy (deploy_max p)"
      and a: "amt (src20_dict p) = Some a"
      and bal: "get_running_user_balances db (tick (src20_dict p)) (tick_hash (src20_dict p))
                  [destination (src20_dict p)] shadow = Inr tuple"
  defines "minted \<equiv> get_running_mint_total db shadow (tick (src20_dict p))"
      and "cap \<equiv> (if dec_truthy (deploy_lim p) then py_min (deploy_lim p) (deploy_max p) else D0)"
  defines "avail \<equiv> dec_sub (deploy_max p) minted"
  defines "a1 \<equiv> (if dec_less avail a then avail else a)"
  defines "a2 \<equiv> (if dec_less cap a1 then cap else a1)"
  defines "final \<equiv> dec_normalize a2"
  defines "bal0 \<equiv> (case tuple of [] \<Rightarrow> D0 | b # _ \<Rightarrow> total_balance b)"
  defines "dec' \<equiv> case_option 18 id (self_dec p)"
  shows "\<exists>r. handle_mint db shadow ''MINT'' p = Inr r \<and>
    (if dec_le (deploy_max p) minted
     then status (src20_dict r) = Some OM \<and> \<not> is_valid r \<and>
          src20_dict r = (src20_dict p)\<lparr>status := Some OM\<rparr>
     else if - expo final > dec'
     then status (src20_dict r) = Some ID \<and> \<not> is_valid r \<and>
          valid (src20_dict r) = valid (src20_dict p) \<and>
          total_minted (src20_dict r) = total_minted (src20_dict p) \<and>
          total_balance_destination (src20_dict r) = total_balance_destination (src20_dict p)
     else valid (src20_dict r) = Some 1 \<and> is_valid r = is_valid p \<and>
          amt (src20_dict r) = Some final \<and>
          total_minted (src20_dict r) = Some (dec_add minted final) \<and>
          total_balance_destination (src20_dict r) = Some (dec_add bal0 final) \<and>
          status (src20_dict r) =
            (if dec_less cap a1 then Some ODL
             else if dec_less avail a then Some OMA else status (src20_dict p)))"
proof (cases "dec_le (deploy_max p) minted")
  case True
  then show ?thesis using mx a
    by (simp add: handle_mint_def Let_def minted_def set_status_and_log_def)
next
  case False
  let ?p = "p\<lparr>deploy_lim := cap\<rparr>"
  let ?p1 = "(if dec_less avail a
              then (set_status_and_log OMA ?p)
                     \<lparr>src20_dict := (src20_dict (set_status_and_log OMA ?p))\<lparr>amt := Some avail\<rparr>\<rparr>
              else ?p)"
  let ?p2 = "(if dec_less (deploy_lim ?p1) a1
              then (set_status_and_log ODL ?p1)
                     \<lparr>src20_dict := (src20_dict (set_status_and_log ODL ?p1))\<lparr>amt := Some (deploy_lim ?p1)\<rparr>\<rparr>
              else ?p1)"
  have lim1: "deploy_lim ?p1 = cap" by (simp add: set_status_and_log_def)
  have amt2: "amt (src20_dict ?p2) = Some a2"
    using a by (simp add: a2_def a1_def lim1 set_status_and_log_def)
  have same: "tick (src20_dict ?p2) = tick (src20_dict p)"
     "tick_hash (src20_dict ?p2) = tick_hash (src20_dict p)"
     "destination (src20_dict ?p2) = destination (src20_dict p)"
     "self_dec ?p2 = self_dec p" "is_valid ?p2 = is_valid p"
     "valid (src20_dict ?p2) = valid (src20_dict p)"
     "total_minted (src20_dict ?p2) = total_minted (src20_dict p)"
     "total_balance_destination (src20_dict ?p2) = total_balance_destination (src20_dict p)"
    by (simp_all add: set_status_and_log_def)
  have st2: "status (src20_dict ?p2) =
            (if dec_less cap a1 then Some ODL
             else if dec_less avail a then Some OMA else status (src20_dict p))"
    by (simp add: set_status_and_log_def)
  have hm: "handle_mint db shadow ''MINT'' p =
              update_valid_src20_list (Some bal0) None ''MINT'' (Some minted) ?p2"
    using False mx a bal unfolding handle_mint_def Let_def
    by (simp add: minted_def avail_def cap_def a1_def bal0_def set_status_and_log_def
          split: list.splits)
  show ?thesis
    unfolding hm update_valid_mint[OF amt2]
    using False
    by (simp add: same st2 final_def dec'_def mark_valid_def set_status_and_log_def)
qed


text \<open>
  The theorem at a MINT of 950 with 60 of 1000 minted: clamped to 940, then to the cap
  100; the record is valid, the running total is 160 and \<open>B\<close> holds 100.
\<close>

theorem handle_mint_cases_witness:
  "dec_truthy (deploy_max (dogs_processor (dogs_mint (Dec 950 0)))) \<and>
   amt (src20_dict (dogs_processor (dogs_mint (Dec 950 0)))) = Some (Dec 950 0) \<and>
   get_running_user_balances dogs_db ''dogs'' ''h'' [''B''] [] =
     Inr [\<lparr>bc_tick = ''dogs'', bc_address = ''B'', total_balance = Dec 0 0,
           locked_balance = Some (Dec 0 0)\<rparr>] \<and>
   outcome (handle_mint dogs_db [] ''MINT'' (dogs_processor (dogs_mint (Dec 950 0))))
     = Inr (Some ODL, True, Some 1, Some (Dec 1 2), Some (Dec 160 0), None, Some (Dec 100 0))"
  using handle_mint_cases
    [where p = "dogs_processor (dogs_mint (Dec 950 0))" and a = "Dec 950 0" and db = dogs_db
       and shadow = "[]"
       and tuple = "[\<lparr>bc_tick = ''dogs'', bc_address = ''B'', total_balance = Dec 0 0,
                      locked_balance = Some (Dec 0 0)\<rparr>]"]
  by (simp add: handle_mint_def dogs_processor_def dogs_mint_def dogs_running_mint_total
      dogs_running_balance_B Let_def outcome_def update_valid_src20_list_def mark_valid_def
      normalize_and_validate_amt_def set_status_and_log_def dec_eval)

section \<open>Properties of the DEPLOY handler\<close>

lemma py_upper_DEPLOY: "py_upper ''DEPLOY'' = ''DEPLOY''"
  by (simp add: py_upper_def)

lemma handle_deploy_exists:
  "dec_truthy (deploy_lim p) \<or> dec_truthy (deploy_max p)
   \<Longrightarrow> handle_deploy ''DEPLOY'' p = Inr (set_status_and_log DE p)"
  by (auto simp: handle_deploy_def py_upper_DEPLOY)

text \<open>
  Claim C3 at two DEPLOYs of the tick \<open>zero\<close> with max 0 and lim 0 in one block. The
  first is accepted; the second finds the first in the shadow list, and is accepted as
  well: both limits of the existing DEPLOY are zero, which \<open>handle_deploy\<close> takes for
  the absence of a DEPLOY. It gets no status DE.
\<close>

theorem duplicate_zero_deploy_accepted:
  "map_sum id src20_dict
     (validate_and_process_operation empty_db [] (new_processor empty_cache zero_deploy))
     = Inr (zero_deploy\<lparr>dec := Some 18, valid := Some 1\<rparr>) \<and>
   get_src20_deploy empty_db ''zero'' [zero_deploy\<lparr>dec := Some 18, valid := Some 1\<rparr>]
     = (Dec 0 0, Dec 0 0, Some 18) \<and>
   map_sum id src20_dict
     (validate_and_process_operation empty_db [zero_deploy\<lparr>dec := Some 18, valid := Some 1\<rparr>]
        (new_processor empty_cache zero_deploy))
     = Inr (zero_deploy\<lparr>dec := Some 18, valid := Some 1\<rparr>)"
  by (simp add: validate_and_process_operation_def new_processor_def zero_deploy_def
      empty_db_def get_src20_deploy_def handle_deploy_def update_valid_src20_list_def
      mark_valid_def py_upper_DEPLOY Let_def dec_eval)

section \<open>Properties of the TRANSFER handler\<close>
































section \<open>Properties of the rendering and of the canonical string\<close>

lemma digit_char_in: "d < 10 \<Longrightarrow> digit_char d \<in> set ''0123456789''"
proof -
  assume "d < 10"
  then have "d < length ''0123456789''" by simp
  then show ?thesis unfolding digit_char_def by (rule nth_mem)
qed

lemma set_nat_digits: "set (nat_digits n) \<subseteq> set ''0123456789''"
proof (induction n rule: nat_digits.induct)
  case (1 n)
  show ?case
  proof (cases "n < 10")
    case True
    then show ?thesis using digit_char_in[of n] by (subst nat_digits.simps) simp
  next
    case False
    have "n mod 10 < 10" by simp
    then have "digit_char (n mod 10) \<in> set ''0123456789''" by (rule digit_char_in)
    then show ?thesis using 1[OF False] False by (subst nat_digits.simps) simp
  qed
qed

lemma nat_digits_nonempty: "nat_digits n \<noteq> []"
  by (subst nat_digits.simps) simp

lemma dot_notin_nat_digits: "CHR ''.'' \<notin> set (nat_digits n)"
  using set_nat_digits[of n] by auto

lemma dot_notin_str_int: "CHR ''.'' \<notin> set (str_int i)"
  by (simp add: str_int_def dot_notin_nat_digits)

lemma rstrip_snoc: "rstrip c (xs @ [y]) = (if y = c then rstrip c xs else xs @ [y])"
  by (simp add: rstrip_def)

lemma rstrip_last: "rstrip c s \<noteq> [] \<Longrightarrow> last (rstrip c s) \<noteq> c"
proof (induction s rule: rev_induct)
  case Nil then show ?case by (simp add: rstrip_def)
next
  case (snoc y xs)
  then show ?case by (auto simp: rstrip_snoc split: if_splits)
qed

lemma set_rstrip: "set (rstrip c s) \<subseteq> set s"
  unfolding rstrip_def using set_dropWhileD[of _ "\<lambda>x. x = c" "rev s"] by auto

lemma rstrip_id: "s \<noteq> [] \<Longrightarrow> last s \<noteq> c \<Longrightarrow> rstrip c s = s"
  by (induction s rule: rev_induct) (simp_all add: rstrip_snoc)

lemma rstrip_nil: "rstrip c [] = []" by (simp add: rstrip_def)

text \<open>After both strips, a string with one point at most has no trailing zero behind a point.\<close>

lemma rstrip_zero_dot:
  assumes "CHR ''.'' \<notin> set I" "CHR ''.'' \<notin> set F"
  defines "s \<equiv> rstrip (CHR ''.'') (rstrip (CHR ''0'') (I @ (if F = [] then [] else CHR ''.'' # F)))"
  shows "CHR ''.'' \<in> set s \<Longrightarrow> last s \<noteq> CHR ''0'' \<and> last s \<noteq> CHR ''.''"
proof -
  assume dot: "CHR ''.'' \<in> set s"
  have ne: "s \<noteq> []" using dot by auto
  have l1: "last s \<noteq> CHR ''.''" using ne unfolding s_def by (rule rstrip_last)
  show ?thesis
  proof (cases "F = []")
    case True
    then have "set s \<subseteq> set I" unfolding s_def
      using set_rstrip[of "CHR ''.''" "rstrip (CHR ''0'') I"] set_rstrip[of "CHR ''0''" I] by auto
    with dot assms(1) show ?thesis by auto
  next
    case False
    let ?u = "rstrip (CHR ''0'') (I @ CHR ''.'' # F)"
    have s: "s = rstrip (CHR ''.'') ?u" using False by (simp add: s_def)
    show ?thesis
    proof (cases "rstrip (CHR ''0'') F = []")
      case True
      have "?u = I @ [CHR ''.'']"
        using True
      proof (induction F rule: rev_induct)
        case Nil then show ?case by (simp add: rstrip_id)
      next
        case (snoc y ys)
        have "rstrip (CHR ''0'') (I @ CHR ''.'' # ys @ [y]) = rstrip (CHR ''0'') ((I @ CHR ''.'' # ys) @ [y])"
          by simp
        also have "\<dots> = (if y = CHR ''0'' then rstrip (CHR ''0'') (I @ CHR ''.'' # ys) else (I @ CHR ''.'' # ys) @ [y])"
          by (rule rstrip_snoc)
        finally show ?case using snoc by (auto simp: rstrip_snoc split: if_splits)
      qed
      then have "s = rstrip (CHR ''.'') I" by (simp add: s rstrip_snoc)
      then have "set s \<subseteq> set I" using set_rstrip[of "CHR ''.''" I] by simp
      with dot assms(1) show ?thesis by auto
    next
      case ne2: False
      have u: "?u = I @ CHR ''.'' # rstrip (CHR ''0'') F"
        using ne2
      proof (induction F rule: rev_induct)
        case Nil then show ?case by (simp add: rstrip_nil)
      next
        case (snoc y ys)
        have e: "rstrip (CHR ''0'') (I @ CHR ''.'' # ys @ [y]) =
            (if y = CHR ''0'' then rstrip (CHR ''0'') (I @ CHR ''.'' # ys) else (I @ CHR ''.'' # ys) @ [y])"
          using rstrip_snoc[of "CHR ''0''" "I @ CHR ''.'' # ys" y] by simp
        show ?case using snoc e by (auto simp: rstrip_snoc split: if_splits)
      qed
      have lastF: "last (rstrip (CHR ''0'') F) \<noteq> CHR ''0''" using ne2 by (rule rstrip_last)
      have "CHR ''.'' \<notin> set (rstrip (CHR ''0'') F)" using set_rstrip[of "CHR ''0''" F] assms(2) by auto
      then have "last (rstrip (CHR ''0'') F) \<noteq> CHR ''.''" using ne2 last_in_set by metis
      then have "last ?u \<noteq> CHR ''.''" using ne2 by (simp add: u)
      then have "s = ?u" unfolding s by (intro rstrip_id) (simp_all add: u)
      then show ?thesis using lastF ne2 l1 by (simp add: u)
    qed
  qed
qed

lemma format_f_shape:
  "\<exists>I F. format_f x = I @ (if F = [] then [] else CHR ''.'' # F)
         \<and> CHR ''.'' \<notin> set I \<and> CHR ''.'' \<notin> set F"
proof -
  define y where "y = (if coeff x = 0 \<and> expo x > 0 then Dec 0 0 else x)"
  define digits where "digits = nat_digits (nat \<bar>coeff y\<bar>)"
  define dotplace where "dotplace = expo y + int (length digits)"
  define intpart where "intpart = (if dotplace < 0 then ''0''
                     else if dotplace > int (length digits)
                     then digits @ replicate (nat (dotplace - int (length digits))) (CHR ''0'')
                     else if take (nat dotplace) digits = [] then ''0''
                     else take (nat dotplace) digits)"
  define fracpart where "fracpart = (if dotplace < 0 then replicate (nat (- dotplace)) (CHR ''0'') @ digits
                      else if dotplace > int (length digits) then []
                      else drop (nat dotplace) digits)"
  define I where "I = (if coeff y < 0 then ''-'' else []) @ intpart"
  have d: "CHR ''.'' \<notin> set digits" unfolding digits_def by (rule dot_notin_nat_digits)
  have dt: "CHR ''.'' \<notin> set (take n digits)" for n using d in_set_takeD by fastforce
  have dd: "CHR ''.'' \<notin> set (drop n digits)" for n using d in_set_dropD by fastforce
  have i: "CHR ''.'' \<notin> set I" unfolding I_def intpart_def using d dt by auto
  have f: "CHR ''.'' \<notin> set fracpart" unfolding fracpart_def using d dd by auto
  have "format_f x = I @ (if fracpart = [] then [] else CHR ''.'' # fracpart)"
    unfolding format_f_def Let_def I_def intpart_def fracpart_def dotplace_def digits_def y_def
    by simp
  with i f show ?thesis by blast
qed

lemma format_decimal_zero: "coeff (dec_normalize a) = 0 \<Longrightarrow> format_decimal a = ''0''"
proof -
  assume z: "coeff (dec_normalize a) = 0"
  have "dec_to_int (dec_normalize a) = 0" using z by (simp add: dec_to_int_def)
  moreover have "dec_eq (dec_normalize a) (D_int 0)"
    using z by (simp add: dec_eq_def aligned_def D_int_def)
  ultimately show ?thesis
    by (simp add: format_decimal_def Let_def str_int_def nat_digits.simps digit_char_def)
qed

lemma dec_to_int_integral: "0 \<le> expo x \<Longrightarrow> dec_eq x (D_int (dec_to_int x))"
  by (simp add: dec_eq_def aligned_def D_int_def dec_to_int_def min_def)

lemma format_decimal_integer:
  "0 \<le> expo (dec_normalize a) \<Longrightarrow> format_decimal a = str_int (dec_to_int (dec_normalize a))"
  using dec_to_int_integral[of "dec_normalize a"] by (simp add: format_decimal_def Let_def)

lemma format_decimal_no_trailing_zero:
  assumes "CHR ''.'' \<in> set (format_decimal a)"
  shows "last (format_decimal a) \<noteq> CHR ''0'' \<and> last (format_decimal a) \<noteq> CHR ''.''"
proof -
  let ?n = "dec_normalize a"
  let ?s = "rstrip (CHR ''.'') (rstrip (CHR ''0'') (format_f ?n))"
  have notint: "\<not> dec_eq ?n (D_int (dec_to_int ?n))"
    using assms dot_notin_str_int by (auto simp: format_decimal_def Let_def split: if_splits)
  have nonempty: "?s \<noteq> []"
    using assms notint by (auto simp: format_decimal_def Let_def split: if_splits)
  have eq: "format_decimal a = ?s"
    using notint nonempty by (simp add: format_decimal_def Let_def)
  obtain I F where sh: "format_f ?n = I @ (if F = [] then [] else CHR ''.'' # F)"
      "CHR ''.'' \<notin> set I" "CHR ''.'' \<notin> set F"
    using format_f_shape[of ?n] by blast
  show ?thesis
    using rstrip_zero_dot[OF sh(2,3)] assms unfolding eq sh(1) by blast
qed

lemma split_on_prefix:
  "c \<notin> set t \<Longrightarrow> split_on c (t @ c # rest) = t # split_on c rest"
  by (induction t) (auto split: list.splits)

lemma entry_key_ledger_entry:
  assumes "CHR '','' \<notin> set (shown_tick decode b)" "CHR '','' \<notin> set (address b)"
  shows "entry_key (ledger_entry decode b) = shown_tick decode b @ ''_'' @ address b"
proof -
  have "split_on (CHR '','') (ledger_entry decode b) =
          shown_tick decode b # address b # split_on (CHR '','') (format_decimal (shown_amt b))"
    using split_on_prefix[OF assms(1), of "address b @ CHR '','' # format_decimal (shown_amt b)"]
      split_on_prefix[OF assms(2), of "format_decimal (shown_amt b)"]
    by (simp add: ledger_entry_def)
  then show ?thesis by (simp add: entry_key_def)
qed

lemma insort_key_map:
  "insort_key f (g x) (map g ys) = map g (insort_key (\<lambda>y. f (g y)) x ys)"
  by (induction ys) simp_all

lemma sort_key_map: "sort_key f (map g xs) = map g (sort_key (\<lambda>y. f (g y)) xs)"
  by (induction xs) (simp_all add: insort_key_map)

lemma insort_key_cong_set:
  "f x = g x \<Longrightarrow> (\<And>y. y \<in> set ys \<Longrightarrow> f y = g y) \<Longrightarrow> insort_key f x ys = insort_key g x ys"
  by (induction ys) simp_all

lemma sort_key_cong_set:
  "(\<And>x. x \<in> set xs \<Longrightarrow> f x = g x) \<Longrightarrow> sort_key f xs = sort_key g xs"
proof (induction xs)
  case Nil then show ?case by simp
next
  case (Cons a xs)
  have "sort_key f xs = sort_key g xs" using Cons by simp
  moreover have "insort_key f a (sort_key g xs) = insort_key g a (sort_key g xs)"
    using Cons.prems by (intro insort_key_cong_set) simp_all
  ultimately show ?case by simp
qed

lemma process_balance_updates_sorted_rows:
  assumes "\<And>b. b \<in> set balance_updates \<Longrightarrow>
             CHR '','' \<notin> set (shown_tick decode b) \<and> CHR '','' \<notin> set (address b)"
  shows "process_balance_updates decode balance_updates =
           py_join '';'' (map (ledger_entry decode)
              (sort_key (\<lambda>b. shown_tick decode b @ ''_'' @ address b) balance_updates))"
proof -
  have "sort_key entry_key (map (ledger_entry decode) balance_updates) =
        map (ledger_entry decode) (sort_key (\<lambda>b. entry_key (ledger_entry decode b)) balance_updates)"
    by (rule sort_key_map)
  also have "sort_key (\<lambda>b. entry_key (ledger_entry decode b)) balance_updates =
             sort_key (\<lambda>b. shown_tick decode b @ ''_'' @ address b) balance_updates"
    using assms by (intro sort_key_cong_set entry_key_ledger_entry) simp_all
  finally show ?thesis by (simp add: process_balance_updates_def)
qed

text \<open>
  Claim C5. The canonical string has one entry \<open>tick,address,amt\<close> for every balance
  update of the batch (the sorted list is a permutation of the batch), the entries are
  joined with \<open>;\<close> and ordered by the key \<open>tick_address\<close>. The code recovers the key by
  splitting the entry at its commas, so this holds for ticks (as shown, after
  \<open>decode_unicode_escapes\<close>) and addresses that contain no comma. The amount \<open>a\<close> is
  rendered normalized: a zero is \<open>0\<close>, a value whose normalized exponent is not negative
  (an integer) has no decimal point, and a rendering with a decimal point does not end
  in a zero or in the point.
\<close>

theorem process_balance_updates_canonical:
  assumes "\<forall>b \<in> set balance_updates.
             CHR '','' \<notin> set (shown_tick decode b) \<and> CHR '','' \<notin> set (address b)"
  shows "process_balance_updates decode balance_updates =
           py_join '';'' (map (\<lambda>b. shown_tick decode b @ '','' @ address b @ '','' @ format_decimal (shown_amt b))
              (sort_key (\<lambda>b. shown_tick decode b @ ''_'' @ address b) balance_updates)) \<and>
         sorted (map (\<lambda>b. shown_tick decode b @ ''_'' @ address b)
              (sort_key (\<lambda>b. shown_tick decode b @ ''_'' @ address b) balance_updates)) \<and>
         mset (sort_key (\<lambda>b. shown_tick decode b @ ''_'' @ address b) balance_updates)
           = mset balance_updates \<and>
         (coeff (dec_normalize a) = 0 \<longrightarrow> format_decimal a = ''0'') \<and>
         (0 \<le> expo (dec_normalize a) \<longrightarrow> CHR ''.'' \<notin> set (format_decimal a)) \<and>
         (CHR ''.'' \<in> set (format_decimal a) \<longrightarrow>
            last (format_decimal a) \<noteq> CHR ''0'' \<and> last (format_decimal a) \<noteq> CHR ''.'')"
proof -
  have 1: "process_balance_updates decode balance_updates =
           py_join '';'' (map (\<lambda>b. shown_tick decode b @ '','' @ address b @ '','' @ format_decimal (shown_amt b))
              (sort_key (\<lambda>b. shown_tick decode b @ ''_'' @ address b) balance_updates))"
    using process_balance_updates_sorted_rows[of balance_updates decode] assms
    by (simp add: ledger_entry_def[abs_def])
  have 2: "0 \<le> expo (dec_normalize a) \<longrightarrow> CHR ''.'' \<notin> set (format_decimal a)"
    using format_decimal_integer[of a] dot_notin_str_int by simp
  show ?thesis
    using 1 2 format_decimal_zero[of a] format_decimal_no_trailing_zero[of a]
    by (simp del: set_sort)
qed


lemmas fmt_eval = format_decimal_def format_f_def dec_to_int_def rstrip_def str_int_def Let_def
  shown_amt_def shown_tick_def show_tick_def

text \<open>
  The theorem at the three sample updates (balances 1.50, 160 and 0), and at the amounts
  \<open>0.000\<close> and \<open>1.50\<close>.
\<close>

theorem process_balance_updates_canonical_witness:
  "CHR '','' \<notin> set ''kevin'' \<and> CHR '','' \<notin> set ''bc1q'' \<and> CHR '','' \<notin> set ''dogs'' \<and>
   process_balance_updates id sample_rows = ''dogs,A,0;dogs,B,160;kevin,bc1q,1.5'' \<and>
   coeff (dec_normalize (Dec 0 (-3))) = 0 \<and> format_decimal (Dec 0 (-3)) = ''0'' \<and>
   CHR ''.'' \<in> set (format_decimal (Dec 150 (-2))) \<and> format_decimal (Dec 150 (-2)) = ''1.5''"
  using process_balance_updates_canonical[of sample_rows id "Dec 0 (-3)"]
    process_balance_updates_canonical[of sample_rows id "Dec 150 (-2)"]
  by (simp add: process_balance_updates_def sample_rows_def ledger_entry_def entry_key_def
      fmt_eval dec_eval digits_eval)

section \<open>Properties of the format check\<close>

lemma py_lower_e: "CHR ''e'' \<in> set s \<or> CHR ''E'' \<in> set s \<Longrightarrow> CHR ''e'' \<in> set (py_lower s)"
proof -
  let ?f = "\<lambda>c. case map_of (zip ''ABCDEFGHIJKLMNOPQRSTUVWXYZ'' ''abcdefghijklmnopqrstuvwxyz'') c of
                Some l \<Rightarrow> l | None \<Rightarrow> c"
  assume a: "CHR ''e'' \<in> set s \<or> CHR ''E'' \<in> set s"
  have e1: "?f (CHR ''e'') = CHR ''e''" by simp
  have e2: "?f (CHR ''E'') = CHR ''e''" by simp
  have "set (py_lower s) = ?f ` set s" by (simp add: py_lower_def)
  moreover have "CHR ''e'' \<in> ?f ` set s"
    using a e1 e2 by (metis (no_types, lifting) image_eqI)
  ultimately show ?thesis by simp
qed

lemma parse_no_sci_float_sci:
  "CHR ''e'' \<in> set s \<or> CHR ''E'' \<in> set s \<Longrightarrow> parse_no_sci_float s = Inl ValueError"
  using py_lower_e[of s] by (simp add: parse_no_sci_float_def)

lemma json_loads_sci:
  "has_sci_literal doc \<Longrightarrow> isl (json_loads doc)"
  "has_sci_literal_list docs \<Longrightarrow> isl (json_loads_list docs)"
  "has_sci_literal_pairs kvs \<Longrightarrow> isl (json_loads_pairs kvs)"
proof (induction doc and docs and kvs rule: json_loads_json_loads_list_json_loads_pairs.induct)
  case (8 s)
  then show ?case by (simp add: parse_no_sci_float_sci)
qed (auto split: sum.splits)

text \<open>
  Claim C1, amended. For every payload given as JSON text in which a number is written
  with an \<open>e\<close> or an \<open>E\<close> (anywhere in the document), \<open>check_format\<close> returns \<open>None\<close>, at
  every block height: the \<open>parse_float\<close> hook raises on the literal. A field whose value
  is a string is not covered by this rule.
\<close>

theorem check_format_rejects_sci_literal:
  "has_sci_literal doc \<Longrightarrow> check_format cfg (JsonText doc) block_index = Inr None"
  using json_loads_sci(1)[of doc] by (auto simp: check_format_def split: sum.splits)


lemma replicate_numeral: "replicate (numeral k) x = x # replicate (numeral k - 1) x"
  by (simp add: numeral_eq_Suc)

lemmas parse_eval = py_decimal_of_string_def parse_finite_def parse_exponent_def digits_value_def
  py_strip_def py_isspace_def py_lower_def ascii_digit_def py_isdigit_def Let_def

lemmas check_eval = check_format_def check_dict_def convert_to_utf8_string_def
  matches_any_pattern_def checked_keys_def numeric_field_ok_def value_to_decimal_def
  in_uint64_range_def uint64_max_def dict_of_pairs_def accepted_def

lemma max_int_ok: "numeric_field_ok cfg h (Some (PInt (2 ^ 64 - 1)))"
  by (simp add: check_eval dec_eval)

lemma over_int_rejected: "\<not> numeric_field_ok cfg h (Some (PInt (2 ^ 64)))"
  by (simp add: check_eval dec_eval)

lemma max_str_ok: "numeric_field_ok cfg h (Some (PStr ''18446744073709551615''))"
  by (simp add: check_eval dec_eval parse_eval)

lemma over_str_rejected: "\<not> numeric_field_ok cfg h (Some (PStr ''18446744073709551616''))"
  by (simp add: check_eval dec_eval parse_eval)


text \<open>The theorem at a MINT whose amount is the number \<open>1e3\<close>, not quoted.\<close>

theorem check_format_rejects_sci_literal_witness:
  "has_sci_literal (mint_json (JFloat ''1e3'')) \<and>
   check_format sample_cfg (JsonText (mint_json (JFloat ''1e3''))) 900000 = Inr None"
  using check_format_rejects_sci_literal[of "mint_json (JFloat ''1e3'')" sample_cfg 900000]
  by (simp add: mint_json_def)

text \<open>
  Claim C1, as stated, fails: a MINT whose amount is the string \<open>1e3\<close> is accepted at
  height 900000, where \<open>Decimal("1e3")\<close> is 1000, and at height 700000, where the \<open>e\<close> is
  dropped and the amount checked is 13.
\<close>

theorem check_format_sci_string_counterexample:
  "accepted (check_format sample_cfg (JsonText (mint_json (JString ''1e3''))) 900000) \<and>
   value_to_decimal sample_cfg 900000 (PStr ''1e3'') = Some (Fin (Dec 1 3)) \<and>
   accepted (check_format sample_cfg (JsonText (mint_json (JString ''1e3''))) 700000) \<and>
   value_to_decimal sample_cfg 700000 (PStr ''1e3'') = Some (Fin (Dec 13 0))"
  by (simp add: check_eval sample_cfg_def mint_json_def dec_eval parse_eval)

lemma check_format_loaded:
  "check_format cfg input_string h = Inr (Some m') \<Longrightarrow>
   \<exists>m. loaded_dict input_string = Some m \<and> check_dict cfg m h = Inr (Some m')"
  by (auto simp: check_format_def loaded_dict_def split: check_input.splits sum.splits pyval.splits)

lemma loaded_dict_unique:
  "check_format cfg input_string h = Inr (Some m') \<Longrightarrow> loaded_dict input_string = Some m
   \<Longrightarrow> check_dict cfg m h = Inr (Some m')"
  using check_format_loaded[of cfg input_string h m'] by auto

lemma check_dict_src20:
  assumes "check_dict cfg m h = Inr (Some m')" "m ''p'' = Some (PStr p)" "py_lower p = ''src-20''"
  shows "list_all (\<lambda>key. numeric_field_ok cfg h (m' key)) (checked_keys m') \<and>
         (\<forall>key. key \<noteq> ''tick'' \<longrightarrow> m' key = m key)"
proof -
  have ne: "py_lower p \<noteq> ''src-721''" using assms(3) by simp
  have "\<exists>tv. m' = m(''tick'' \<mapsto> PStr tv) \<and>
          list_all (\<lambda>key. numeric_field_ok cfg h (m' key)) (checked_keys m')"
    using assms(1) assms(2) assms(3) ne
    unfolding check_dict_def Let_def
    by (auto simp del: fun_upd_apply split: option.splits pyval.splits sum.splits if_splits)
  then show ?thesis by auto
qed

lemma checked_keys_subset: "set (checked_keys m) \<subseteq> {''max'', ''lim'', ''amt''}"
  by (auto simp: checked_keys_def split: if_splits)

lemma value_to_decimal_type: "value_to_decimal cfg h v = Some d \<Longrightarrow> numeric_type v"
  by (cases v) (simp_all add: value_to_decimal_def numeric_type_def)

lemma numeric_field_ok_range:
  "numeric_field_ok cfg h x \<Longrightarrow>
   \<exists>v d. x = Some v \<and> numeric_type v \<and> value_to_decimal cfg h v = Some (Fin d)
         \<and> dec_le D0 d \<and> dec_le d uint64_max"
proof -
  assume a: "numeric_field_ok cfg h x"
  then obtain v where v: "x = Some v" by (cases x) (simp_all add: numeric_field_ok_def)
  from a v obtain pd where pd: "value_to_decimal cfg h v = Some pd" "in_uint64_range pd"
    by (cases "value_to_decimal cfg h v") (simp_all add: numeric_field_ok_def)
  from pd(2) obtain d where d: "pd = Fin d" "dec_le D0 d" "dec_le d uint64_max"
    by (cases pd) (simp_all add: in_uint64_range_def)
  show ?thesis using v pd(1) d value_to_decimal_type[OF pd(1)] by blast
qed

text \<open>
  What the range check guarantees. When \<open>check_format\<close> accepts an SRC-20 payload, every
  checked key (\<open>max\<close> and \<open>lim\<close> with the DEPLOY keys, \<open>amt\<close> with the TRANSFER, MINT
  or BULK_XFER keys) holds a string, int, float or Decimal, and the \<open>Decimal\<close> the check
  converts it to is finite (so not NaN) and lies in the closed interval from 0 to
  \<open>2^64 - 1\<close>. The conversion of a string is \<open>Decimal(s)\<close>, after every character other
  than a digit or a point has been dropped when the height is below the p2wsh activation;
  the conversion of a float is the \<open>Decimal\<close> of its rendering with six decimal places,
  which is not the float's value. The values \<open>2^64 - 1\<close> pass the check and \<open>2^64\<close> fail
  it, as an int and as a string, at every height.
\<close>

lemma check_format_numeric_range:
  "(check_format cfg input_string h = Inr (Some m') \<and> loaded_dict input_string = Some m \<and>
    m ''p'' = Some (PStr p) \<and> py_lower p = ''src-20'' \<and> key \<in> set (checked_keys m')
      \<longrightarrow> (\<exists>v d. m key = Some v \<and> m' key = Some v \<and> numeric_type v \<and>
                  value_to_decimal cfg h v = Some (Fin d) \<and> dec_le D0 d \<and> dec_le d uint64_max)) \<and>
   numeric_field_ok cfg h (Some (PInt (2 ^ 64 - 1))) \<and>
   \<not> numeric_field_ok cfg h (Some (PInt (2 ^ 64))) \<and>
   numeric_field_ok cfg h (Some (PStr ''18446744073709551615'')) \<and>
   \<not> numeric_field_ok cfg h (Some (PStr ''18446744073709551616'')) \<and>
   (h < CP_P2WSH_FEAT_BLOCK_START cfg \<and> s \<noteq> []
      \<longrightarrow> value_to_decimal cfg h (PStr s) =
            py_decimal_of_string (filter (\<lambda>c. py_isdigit c \<or> c = CHR ''.'') s))"
proof -
  have 1: "\<exists>v d. m key = Some v \<and> m' key = Some v \<and> numeric_type v \<and>
                  value_to_decimal cfg h v = Some (Fin d) \<and> dec_le D0 d \<and> dec_le d uint64_max"
    if a: "check_format cfg input_string h = Inr (Some m')" "loaded_dict input_string = Some m"
       "m ''p'' = Some (PStr p)" "py_lower p = ''src-20''" "key \<in> set (checked_keys m')"
  proof -
    have cd: "check_dict cfg m h = Inr (Some m')" using a(1,2) by (rule loaded_dict_unique)
    have all: "list_all (\<lambda>key. numeric_field_ok cfg h (m' key)) (checked_keys m')"
      and same: "\<forall>key. key \<noteq> ''tick'' \<longrightarrow> m' key = m key"
      using check_dict_src20[OF cd a(3,4)] by simp_all
    have ok: "numeric_field_ok cfg h (m' key)" using all a(5) by (simp add: list_all_iff)
    have "key \<noteq> ''tick''" using a(5) checked_keys_subset[of m'] by auto
    then have "m' key = m key" using same by simp
    then show ?thesis using numeric_field_ok_range[OF ok] by auto
  qed
  have 2: "value_to_decimal cfg h (PStr s) =
            py_decimal_of_string (filter (\<lambda>c. py_isdigit c \<or> c = CHR ''.'') s)"
    if "h < CP_P2WSH_FEAT_BLOCK_START cfg" "s \<noteq> []"
    using that by (simp add: value_to_decimal_def)
  show ?thesis
    using 1 2 max_int_ok[of cfg h] over_int_rejected[of cfg h] max_str_ok[of cfg h]
      over_str_rejected[of cfg h]
    by blast
qed


text \<open>
  A MINT of the string \<open>1,000\<close> at height 700000 is accepted, the amount checked being
  1000; and the boundary on whole payloads at height 900000.
\<close>

lemma check_format_numeric_range_example:
  "check_format sample_cfg (Dictionary (mint_payload (PStr ''1,000''))) 700000
     = Inr (Some (mint_payload (PStr ''1,000''))) \<and>
   loaded_dict (Dictionary (mint_payload (PStr ''1,000''))) = Some (mint_payload (PStr ''1,000'')) \<and>
   mint_payload (PStr ''1,000'') ''p'' = Some (PStr ''src-20'') \<and>
   ''amt'' \<in> set (checked_keys (mint_payload (PStr ''1,000''))) \<and>
   value_to_decimal sample_cfg 700000 (PStr ''1,000'') = Some (Fin (Dec 1000 0)) \<and>
   accepted (check_format sample_cfg (Dictionary (mint_payload (PInt (2 ^ 64 - 1)))) 900000) \<and>
   check_format sample_cfg (Dictionary (mint_payload (PInt (2 ^ 64)))) 900000 = Inr None"
  using check_format_numeric_range
    [where cfg = sample_cfg and input_string = "Dictionary (mint_payload (PStr ''1,000''))"
       and h = 700000 and m = "mint_payload (PStr ''1,000'')"
       and m' = "mint_payload (PStr ''1,000'')" and p = "''src-20''" and key = "''amt''"
       and s = "''1,000''"]
  by (simp add: check_eval loaded_dict_def sample_cfg_def mint_payload_def dec_eval parse_eval)

lemma float_format_f_tiny_negative: "float_format_f (FFin True 5 (-33)) = ''-0.000000''"
  by (simp add: float_format_f_def float_micro_def Let_def digits_eval replicate_numeral)

text \<open>
  Claim C8 at a MINT given as a dictionary whose amount is the float \<open>- 5 * 2^(-33)\<close>
  (about \<open>-5.8e-10\<close>), at height 900000. The claim says a checked value is accepted only
  when it lies between 0 and \<open>2^64 - 1\<close>, and the code tests
  \<open>D("0") <= value <= uint64_max\<close> for that. The float is negative, but the test is made on
  \<open>D(format(value, "f"))\<close>: the rendering with six decimal places is \<open>-0.000000\<close>, a zero,
  so the payload is accepted.
\<close>

theorem check_format_negative_float_accepted:
  "check_format sample_cfg (Dictionary (mint_payload (PFloat (FFin True 5 (-33))))) 900000
     = Inr (Some (mint_payload (PFloat (FFin True 5 (-33))))) \<and>
   float_format_f (FFin True 5 (-33)) = ''-0.000000'' \<and>
   value_to_decimal sample_cfg 900000 (PFloat (FFin True 5 (-33))) = Some (Fin (Dec 0 (-6)))"
  by (simp add: check_eval loaded_dict_def sample_cfg_def mint_payload_def dec_eval parse_eval
      float_format_f_tiny_negative)

end
